theory Spec2Isabelle
  imports Complex_Main "HOL-Library.Sublist"
begin

section \<open>JavaScript values used by the client\<close>

text \<open>
  Strings are lists of 8-bit characters; every string the client computes on (labels, fruit
  names, scan ids, error messages) is compared and searched character by character.
  Non-ASCII characters of string constants are written as their UTF-8 bytes.
  A property that may be absent (\<open>undefined\<close> or \<open>null\<close>) is an \<open>option\<close>.
  Numbers are \<open>real\<close>; the code only tests them for truthiness and passes them on.
\<close>

definition upper_chars :: string where
  "upper_chars = ''ABCDEFGHIJKLMNOPQRSTUVWXYZ''"

definition lower_chars :: string where
  "lower_chars = ''abcdefghijklmnopqrstuvwxyz''"

definition lower_char :: "char \<Rightarrow> char" where
  "lower_char c = (case map_of (zip upper_chars lower_chars) c of Some d \<Rightarrow> d | None \<Rightarrow> c)"

definition upper_char :: "char \<Rightarrow> char" where
  "upper_char c = (case map_of (zip lower_chars upper_chars) c of Some d \<Rightarrow> d | None \<Rightarrow> c)"

text \<open>\<open>String.prototype.toLowerCase\<close> on the ASCII letters.\<close>

definition toLowerCase :: "string \<Rightarrow> string" where
  "toLowerCase s = map lower_char s"

text \<open>\<open>s.includes(t)\<close>: \<open>t\<close> occurs in \<open>s\<close> as a contiguous run.\<close>

primrec str_includes :: "string \<Rightarrow> string \<Rightarrow> bool" where
  "str_includes [] t = (t = [])"
| "str_includes (c # s) t = (prefix t (c # s) \<or> str_includes s t)"

text \<open>\<open>s.startsWith(t)\<close>.\<close>

definition startsWith :: "string \<Rightarrow> string \<Rightarrow> bool" where
  "startsWith s t = prefix t s"

text \<open>Truthiness of an optional number: \<open>undefined\<close>, \<open>null\<close> and \<open>0\<close> are falsy.\<close>

definition truthy_num :: "real option \<Rightarrow> bool" where
  "truthy_num x = (case x of None \<Rightarrow> False | Some v \<Rightarrow> v \<noteq> 0)"

text \<open>\<open>a || b\<close> on optional numbers: the left operand when truthy, else the right one.\<close>

definition or_num :: "real option \<Rightarrow> real option \<Rightarrow> real option" where
  "or_num a b = (if truthy_num a then a else b)"

text \<open>\<open>a || b\<close> on optional strings: the empty string is falsy.\<close>

definition or_str :: "string option \<Rightarrow> string \<Rightarrow> string" where
  "or_str a b = (case a of None \<Rightarrow> b | Some s \<Rightarrow> if s = [] then b else s)"

section \<open>Ingredient items\<close>

text \<open>
  An ingredient object as the screens hold it and as the scan API returns it
  (\<open>label\<close>, \<open>fdc_id\<close>, \<open>confidence\<close>, \<open>grams_est\<close>, \<open>grams\<close>, \<open>confirmed\<close>,
  \<open>manually_added\<close>). \<open>confirmed\<close> is read for truthiness only, so an absent
  \<open>confirmed\<close> is \<open>False\<close>.
\<close>

record item =
  label :: "string option"
  fdc_id :: "string option"
  confidence :: "real option"
  grams_est :: "real option"
  grams :: "real option"
  confirmed :: bool
  manually_added :: "bool option"

section \<open>utils/ingredientDetection.js\<close>

definition COMMON_FRUITS :: "string list" where
  "COMMON_FRUITS =
    [''orange'', ''lemon'', ''lime'', ''grapefruit'', ''tangerine'', ''mandarin'',
     ''strawberry'', ''blueberry'', ''raspberry'', ''blackberry'', ''cranberry'', ''cherry'',
     ''banana'', ''pineapple'', ''mango'', ''papaya'', ''coconut'', ''kiwi'', ''passion fruit'',
     ''peach'', ''plum'', ''apricot'', ''nectarine'',
     ''apple'', ''pear'',
     ''watermelon'', ''cantaloupe'', ''honeydew'', ''melon'',
     ''grape'', ''fig'', ''date'', ''pomegranate'', ''avocado'',
     ''dragon fruit'', ''star fruit'', ''lychee'', ''rambutan'', ''durian'']"

definition SMOOTHIE_VEGETABLES :: "string list" where
  "SMOOTHIE_VEGETABLES = [''spinach'', ''kale'', ''carrot'', ''beet'', ''cucumber'', ''celery'']"

text \<open>\<open>ingredient.label?.toLowerCase() || ''\<close>\<close>

definition label_lower :: "item \<Rightarrow> string" where
  "label_lower ingredient = (case label ingredient of None \<Rightarrow> [] | Some l \<Rightarrow> toLowerCase l)"

definition isFruit :: "item \<Rightarrow> bool" where
  "isFruit ingredient =
     list_ex (\<lambda>fruit. str_includes (label_lower ingredient) fruit \<or> str_includes fruit (label_lower ingredient))
       COMMON_FRUITS"

definition isSmoothieVegetable :: "item \<Rightarrow> bool" where
  "isSmoothieVegetable ingredient =
     list_ex (\<lambda>veg. str_includes (label_lower ingredient) veg \<or> str_includes veg (label_lower ingredient))
       SMOOTHIE_VEGETABLES"

text \<open>The body of the \<open>forEach\<close>: one step of the fruit counter.\<close>

definition count_step :: "item \<Rightarrow> nat \<Rightarrow> nat" where
  "count_step ingredient fruitCount =
     (if isFruit ingredient \<or> isSmoothieVegetable ingredient then fruitCount + 1 else fruitCount)"

text \<open>
  \<open>detectFruits\<close>; the argument is \<open>None\<close> when the caller passes \<open>undefined\<close> or
  \<open>null\<close>. The quotient \<open>fruitCount / totalCount\<close> is compared with \<open>0.6\<close> exactly: for
  every array length a JavaScript engine allows, the rounded quotient lies above the double
  nearest to \<open>0.6\<close> exactly when the exact quotient lies above \<open>3/5\<close>.
\<close>

definition detectFruits :: "item list option \<Rightarrow> bool" where
  "detectFruits ingredients =
     (case ingredients of
        None \<Rightarrow> False
      | Some ings \<Rightarrow>
          if length ings = 0 then False
          else
            let fruitCount = fold count_step ings 0;
                totalCount = length ings;
                fruitPercentage = real fruitCount / real totalCount
            in fruitPercentage > 6 / 10)"

record recipe_categories =
  isFruitBased :: bool
  suggestedCategories :: "string list"
  defaultCategory :: string

definition getRecipeCategories :: "item list option \<Rightarrow> recipe_categories" where
  "getRecipeCategories ingredients =
     (let fruitBased = detectFruits ingredients in
      if fruitBased then
        \<lparr> isFruitBased = True,
          suggestedCategories = [''smoothie'', ''dessert''],
          defaultCategory = ''smoothie'' \<rparr>
      else
        \<lparr> isFruitBased = False,
          suggestedCategories = [''italian'', ''thai'', ''mexican'', ''indian'', ''mediterranean''],
          defaultCategory = ''italian'' \<rparr>)"

text \<open>
  \<open>suggestMealType\<close>; \<open>hour\<close> is \<open>currentTime.getHours()\<close>. The fruit flag is
  computed, as in the source, and not used.
\<close>

definition suggestMealType :: "item list option \<Rightarrow> int \<Rightarrow> string" where
  "suggestMealType ingredients hour =
     (let fruitBased = detectFruits ingredients in
      if hour \<ge> 6 \<and> hour < 11 then ''breakfast''
      else if hour \<ge> 11 \<and> hour < 16 then ''lunch''
      else if hour \<ge> 16 \<and> hour < 21 then ''dinner''
      else ''snack'')"

section \<open>screens/ConfirmScreen.js\<close>

subsection \<open>Screen state and what the screen does to the outside\<close>

text \<open>The \<open>useState\<close> cells of \<open>ConfirmScreen\<close>.\<close>

record confirm_state =
  loading :: bool
  items :: "item list"
  servings :: int
  selectedDiets :: "string list"
  selectedAllergens :: "string list"
  customDiet :: string
  newIngredientName :: string
  newIngredientGrams :: string
  userName :: string
  selectedMealType :: string
  selectedRecipeType :: string
  selectedCookingLevel :: string
  isFruitDetected :: bool

definition initial_confirm_state :: confirm_state where
  "initial_confirm_state =
     \<lparr> loading = True, items = [], servings = 2, selectedDiets = [], selectedAllergens = [],
       customDiet = [], newIngredientName = [], newIngredientGrams = ''100'', userName = [],
       selectedMealType = ''lunch'', selectedRecipeType = ''international'',
       selectedCookingLevel = ''intermediate'', isFruitDetected = False \<rparr>"

text \<open>One element of \<open>confirmationData.items\<close>, the body of the confirm-scan request.\<close>

record request_item =
  req_fdc_id :: "string option"
  req_label :: "string option"
  req_grams :: "real option"
  req_confirmed :: bool
  req_manually_added :: bool

record confirm_preferences =
  cp_diets :: "string list"
  cp_cuisines :: "string list"
  cp_allergens :: "string list"
  cp_servings :: int

record navigation_preferences =
  np_diets :: "string list"
  np_cuisines :: "string list"
  np_allergens :: "string list"
  np_mealType :: string
  np_recipeType :: string
  np_cookingLevel :: string
  np_isFruitDetected :: bool

record recipe_route_params =
  rp_scanId :: string
  rp_confirmedItems :: "item list"
  rp_servings :: int
  rp_preferences :: navigation_preferences

text \<open>
  The calls the screen makes, in the order it makes them: \<open>Alert.alert(title, message)\<close>,
  \<open>apiService.getScan\<close>, \<open>setTimeout(() => loadScanResults(), ms)\<close>,
  \<open>apiService.confirmScan\<close> and \<open>navigation.navigate('Recipe', params)\<close>.
\<close>

datatype confirm_effect =
    Alert string string
  | GetScan string
  | SetTimeoutLoadScanResults nat
  | ConfirmScan string "request_item list" confirm_preferences
  | NavigateRecipe recipe_route_params

text \<open>
  What \<open>apiService.apiCall\<close> resolves to: \<open>{ success: true, data }\<close> (the parsed body,
  which may be \<open>null\<close>) or \<open>{ success: false, error }\<close>. \<open>ApiThrows\<close> stands for
  a rejected promise, which the callers guard against with \<open>try/catch\<close>.
\<close>

datatype 'a api_result = ApiSuccess "'a option" | ApiFailure string | ApiThrows string

text \<open>The body of \<open>GET /scans/{id}\<close> as far as the screen reads it.\<close>

record scan_data =
  sd_items :: "item list option"
  sd_status :: "string option"

subsection \<open>loadUserInfo\<close>



subsection \<open>loadScanResults\<close>

definition is_mock_scan_id :: "string \<Rightarrow> bool" where
  "is_mock_scan_id scanId =
     (startsWith scanId ''mock_'' \<or> startsWith scanId ''manual_'' \<or> startsWith scanId ''test_'')"

definition placeholder_item :: "string \<Rightarrow> item" where
  "placeholder_item l =
     \<lparr> label = Some l, fdc_id = Some [], confidence = Some (1 / 2), grams_est = Some 100,
       grams = None, confirmed = True, manually_added = None \<rparr>"

text \<open>
  The \<open>map\<close> callback that normalises a detected item: the spread keeps the other
  properties, \<open>grams\<close> and \<open>grams_est\<close> fall back to each other and to 100, and only
  the item at index 0 is confirmed.
\<close>

definition normalise_item :: "item \<Rightarrow> nat \<Rightarrow> item" where
  "normalise_item it index =
     it\<lparr> grams := or_num (or_num (grams it) (grams_est it)) (Some 100),
         grams_est := or_num (or_num (grams_est it) (grams it)) (Some 100),
         manually_added := Some False,
         confirmed := (index = 0) \<rparr>"

definition itemsWithFirstConfirmed :: "item list \<Rightarrow> item list" where
  "itemsWithFirstConfirmed its = map (\<lambda>(it, index). normalise_item it index) (zip its [0 ..< length its])"

text \<open>
  One run of the body of \<open>loadScanResults\<close> on the response of its \<open>getScan\<close> call:
  either the run ends with a new state, or it schedules itself again and returns
  (leaving the state, and so \<open>loading = true\<close>, as it was).
\<close>

datatype load_step = Finished confirm_state "confirm_effect list" | PollAgain "confirm_effect list"

definition loadScanResults_body ::
  "string \<Rightarrow> item list option \<Rightarrow> scan_data api_result \<Rightarrow> confirm_state \<Rightarrow> load_step" where
  "loadScanResults_body scanId detectedItems result st =
     (case result of
        ApiThrows msg \<Rightarrow>
          Finished (st\<lparr>items := [], loading := False\<rparr>)
            [GetScan scanId, Alert ''Error'' (''Failed to load scan results: '' @ msg)]
      | ApiSuccess (Some d) \<Rightarrow>
          (case sd_items d of
             Some (i # is) \<Rightarrow>
               (let its = itemsWithFirstConfirmed (i # is);
                    fruitsDetected = detectFruits (Some its);
                    st1 = st\<lparr>items := its, isFruitDetected := fruitsDetected\<rparr>;
                    st2 = (if fruitsDetected then st1\<lparr>selectedRecipeType := ''smoothie''\<rparr> else st1)
                in Finished (st2\<lparr>loading := False\<rparr>) [GetScan scanId])
           | _ \<Rightarrow>
               if sd_status d = Some ''processing'' then
                 PollAgain [GetScan scanId, SetTimeoutLoadScanResults 2000]
               else
                 Finished (st\<lparr>items := [placeholder_item ''unknown food item''], loading := False\<rparr>)
                   [GetScan scanId])
      | _ \<Rightarrow>
          (case detectedItems of
             Some (i # is) \<Rightarrow>
               Finished (st\<lparr>items := itemsWithFirstConfirmed (i # is), loading := False\<rparr>)
                 [GetScan scanId]
           | _ \<Rightarrow>
               (let errorMsg = (case result of ApiFailure e \<Rightarrow> or_str (Some e) ''Unknown error''
                                | _ \<Rightarrow> ''Unknown error'')
                in Finished (st\<lparr>items := [placeholder_item ''unknown food item''], loading := False\<rparr>)
                     [GetScan scanId,
                      Alert ''Detection Failed''
                        (''Real AI detection failed: '' @ errorMsg @ [CHR 0x0A, CHR 0x0A]
                           @ ''Using fallback detection for now.'')])))"

text \<open>
  \<open>loadScanResults\<close>, run against the responses the server gives to its successive
  \<open>getScan\<close> calls. The function calls itself again from a timer for as long as a response
  says \<open>processing\<close>; \<open>None\<close> means that the responses given so far have not let it
  finish. A mock scan id returns at once, without any request.
\<close>

fun loadScanResults ::
  "string \<Rightarrow> item list option \<Rightarrow> scan_data api_result list \<Rightarrow> confirm_state
     \<Rightarrow> (confirm_state \<times> confirm_effect list) option" where
  "loadScanResults scanId detectedItems [] st =
     (if is_mock_scan_id scanId
      then Some (st\<lparr>items := [placeholder_item ''unknown food''], loading := False\<rparr>, [])
      else None)"
| "loadScanResults scanId detectedItems (result # results) st =
     (if is_mock_scan_id scanId
      then Some (st\<lparr>items := [placeholder_item ''unknown food''], loading := False\<rparr>, [])
      else
        (case loadScanResults_body scanId detectedItems result st of
           Finished st' es \<Rightarrow> Some (st', es)
         | PollAgain es \<Rightarrow>
             (case loadScanResults scanId detectedItems results st of
                None \<Rightarrow> None
              | Some (st', es') \<Rightarrow> Some (st', es @ es'))))"

subsection \<open>Editing the ingredient list and the preferences\<close>

text \<open>
  \<open>parseFloat\<close> is the engine's; the functions that call it take it as \<open>pf\<close>, with
  \<open>None\<close> for \<open>NaN\<close>. \<open>parseFloat(t) || d\<close> is then \<open>or_num (pf t) (Some d)\<close>.
\<close>








subsection \<open>handleConfirm\<close>

definition confirmation_item :: "item \<Rightarrow> request_item" where
  "confirmation_item it =
     \<lparr> req_fdc_id = fdc_id it,
       req_label = label it,
       req_grams = or_num (grams it) (grams_est it),
       req_confirmed = True,
       req_manually_added = (manually_added it = Some True) \<rparr>"

definition navigationPreferences :: "confirm_state \<Rightarrow> navigation_preferences" where
  "navigationPreferences st =
     \<lparr> np_diets = selectedDiets st,
       np_cuisines = (if isFruitDetected st then [] else [selectedRecipeType st]),
       np_allergens = selectedAllergens st,
       np_mealType = selectedMealType st,
       np_recipeType = selectedRecipeType st,
       np_cookingLevel = selectedCookingLevel st,
       np_isFruitDetected = isFruitDetected st \<rparr>"

text \<open>
  \<open>handleConfirm\<close>, given what \<open>apiService.confirmScan\<close> resolves to. The result is the
  state after the handler and the calls it made. With no confirmed item the handler returns
  after the alert, before \<open>setLoading(true)\<close>. A failed confirmation is ignored, and the
  \<open>catch\<close> branch navigates with the same data; \<open>finally\<close> clears \<open>loading\<close>.
\<close>

definition handleConfirm :: "string \<Rightarrow> unit api_result \<Rightarrow> confirm_state \<Rightarrow> confirm_state \<times> confirm_effect list" where
  "handleConfirm scanId confirmResponse st =
     (let confirmedItems = filter confirmed (items st) in
      if length confirmedItems = 0 then
        (st, [Alert ''Error'' ''Please confirm at least one ingredient''])
      else
        (let request =
               ConfirmScan scanId (map confirmation_item confirmedItems)
                 \<lparr> cp_diets = selectedDiets st,
                   cp_cuisines = (if isFruitDetected st then [] else [selectedRecipeType st]),
                   cp_allergens = selectedAllergens st,
                   cp_servings = servings st \<rparr>
         in case confirmResponse of
              ApiThrows msg \<Rightarrow>
                (st\<lparr>loading := False\<rparr>,
                 [request,
                  NavigateRecipe
                    \<lparr> rp_scanId = scanId, rp_confirmedItems = filter confirmed (items st),
                      rp_servings = servings st, rp_preferences = navigationPreferences st \<rparr>])
            | _ \<Rightarrow>
                (st\<lparr>loading := False\<rparr>,
                 [request,
                  NavigateRecipe
                    \<lparr> rp_scanId = scanId, rp_confirmedItems = confirmedItems,
                      rp_servings = servings st, rp_preferences = navigationPreferences st \<rparr>])))"

subsection \<open>What the screen renders\<close>

text \<open>The chips under \<open>Recipe Type:\<close> / \<open>Cuisine Type:\<close>.\<close>

definition recipeTypeChips :: "confirm_state \<Rightarrow> string list" where
  "recipeTypeChips st =
     (if isFruitDetected st then [''Smoothie'', ''Dessert'']
      else [''Italian'', ''Mexican'', ''Asian'', ''Indian'', ''Mediterranean'', ''American''])"

subsection \<open>The screen as a state machine\<close>




section \<open>screens/RecipeScreen.js\<close>

subsection \<open>The fallback recipe generators\<close>

record recipe_ingredient =
  ri_name :: "string option"
  ri_grams :: "real option"
  ri_notes :: string

record recipe =
  r_title :: string
  r_servings :: int
  r_estimated_time :: string
  r_tags :: "string list"
  r_ingredients :: "recipe_ingredient list"
  r_steps :: "string list"
  r_substitutions :: "string list"
  r_warnings :: "string list"

text \<open>
  \<open>getIngredientNotes\<close>: a lookup in an object literal with a default. An absent label
  looks up the key \<open>undefined\<close>, which the literal does not have.
\<close>

definition ingredient_notes :: "(string \<times> string) list" where
  "ingredient_notes =
     [(''apple'', ''washed and cored''),
      (''banana'', ''ripe, peeled and sliced''),
      (''egg'', ''room temperature works best''),
      (''potato'', ''washed and peeled if desired''),
      (''tomato'', ''ripe and fresh''),
      (''chicken'', ''boneless, skinless''),
      (''onion'', ''peeled and diced'')]"

definition getIngredientNotes :: "string option \<Rightarrow> string" where
  "getIngredientNotes ingredient =
     (case ingredient of
        None \<Rightarrow> ''prepared as needed''
      | Some l \<Rightarrow> or_str (map_of ingredient_notes l) ''prepared as needed'')"

text \<open>The callback of \<open>ingredients.map\<close> that every generator uses.\<close>

definition recipe_ingredient_of :: "item \<Rightarrow> recipe_ingredient" where
  "recipe_ingredient_of it =
     \<lparr> ri_name = label it,
       ri_grams = or_num (grams_est it) (Some 100),
       ri_notes = getIngredientNotes (label it) \<rparr>"

text \<open>\<open>ingredients[0]?.label || 'Ingredient'\<close>\<close>

definition first_label :: "item list \<Rightarrow> string" where
  "first_label ingredients =
     (case ingredients of [] \<Rightarrow> ''Ingredient'' | i # _ \<Rightarrow> or_str (label i) ''Ingredient'')"

definition generatePalakPaneerRecipe :: "item list \<Rightarrow> int \<Rightarrow> recipe" where
  "generatePalakPaneerRecipe ingredients numServings =
     \<lparr> r_title = ''Palak Paneer (Indian Spinach Cottage Cheese Curry)'',
       r_servings = numServings,
       r_estimated_time = ''30 minutes'',
       r_tags = [''indian'',
                ''vegetarian'',
                ''curry'',
                ''30-min''],
       r_ingredients = map recipe_ingredient_of ingredients,
       r_steps =
         [''Heat 2 tablespoons oil in a heavy-bottomed pan over medium heat'',
          ''Add 1 teaspoon cumin seeds and let them splutter for 30 seconds'',
          (''Add 1 finely chopped onion and saut'' @ [CHR 0xC3, CHR 0xA9] @ '' until golden brown (5-6 minutes)''),
          ''Add 1 tablespoon ginger-garlic paste and cook for 1 minute until fragrant'',
          ''Add 1 chopped tomato and cook until soft and mushy (3-4 minutes)'',
          ''Add the washed spinach leaves and cook until wilted (2-3 minutes)'',
          ''Let the mixture cool, then blend to a smooth puree with little water'',
          ''Return puree to the pan, add 1/2 tsp turmeric, 1 tsp coriander powder, 1/2 tsp garam masala'',
          ''Simmer for 5 minutes, then gently add paneer cubes'',
          ''Cook for 3-4 minutes without stirring too much to prevent paneer from breaking'',
          ''Add salt to taste and 2 tablespoons fresh cream'',
          ''Garnish with fresh coriander and serve hot with basmati rice or naan bread''],
       r_substitutions =
         [''Vegan: Substitute paneer with firm tofu'',
          ''Add cashews while blending for extra creaminess'',
          ''Use coconut milk instead of cream for dairy-free option''],
       r_warnings =
         [''Potential allergens: Dairy (paneer, cream). Use tofu for dairy-free'',
          (''Don'' @ [CHR 0x27] @ ''t overcook paneer as it becomes rubbery'')] \<rparr>"

definition generatePaneerSpinachSaladRecipe :: "item list \<Rightarrow> int \<Rightarrow> recipe" where
  "generatePaneerSpinachSaladRecipe ingredients numServings =
     \<lparr> r_title = ''Fresh Paneer Spinach Salad with Indian Spices'',
       r_servings = numServings,
       r_estimated_time = ''15 minutes'',
       r_tags = [''indian'',
                ''vegetarian'',
                ''fresh'',
                ''15-min'',
                ''healthy''],
       r_ingredients = map recipe_ingredient_of ingredients,
       r_steps =
         [''Wash and thoroughly dry fresh spinach leaves'',
          ''Cut paneer into small cubes and lightly pan-fry until golden'',
          ''In a large bowl, combine spinach leaves with the warm paneer'',
          ''Prepare dressing: mix 2 tbsp olive oil, 1 tbsp lemon juice, 1/2 tsp chaat masala'',
          ''Add 1/4 tsp black pepper, 1/2 tsp roasted cumin powder, and salt to taste'',
          ''Toss the salad with dressing just before serving'',
          ''Garnish with pomegranate seeds and chopped mint if available'',
          ''Serve immediately as a light meal or side dish''],
       r_substitutions =
         [''Add cherry tomatoes and cucumber for extra freshness'',
          ''Use hung curd instead of oil for lighter dressing'',
          ''Add roasted peanuts for crunch''],
       r_warnings =
         [''Potential allergens: Dairy (paneer)'',
          ''Dress the salad just before serving to prevent wilting''] \<rparr>"

definition generateSpinachPaneerCurryRecipe :: "item list \<Rightarrow> int \<Rightarrow> recipe" where
  "generateSpinachPaneerCurryRecipe ingredients numServings =
     \<lparr> r_title = ''Spinach Paneer Curry (Restaurant Style)'',
       r_servings = numServings,
       r_estimated_time = ''25 minutes'',
       r_tags = [''indian'',
                ''vegetarian'',
                ''curry'',
                ''25-min'',
                ''restaurant-style''],
       r_ingredients = map recipe_ingredient_of ingredients,
       r_steps =
         [''Blanch spinach in boiling water for 2 minutes, then plunge in ice water'',
          ''Drain and blend spinach with 2 green chilies to smooth paste'',
          ''Heat 3 tablespoons ghee or oil in a pan over medium heat'',
          ''Add 1 bay leaf, 2 green cardamom, 1-inch cinnamon stick'',
          ''Add 1 sliced onion and cook until golden brown'',
          ''Add 1 tbsp ginger-garlic paste, cook for 1 minute'',
          ''Add 1/2 tsp turmeric, 1 tsp coriander powder, 1/2 tsp red chili powder'',
          ''Add the spinach puree and cook for 8-10 minutes on medium heat'',
          ''Add 1/4 cup water if needed, then add paneer cubes gently'',
          ''Simmer for 5 minutes, add 1/2 tsp garam masala'',
          ''Finish with 2 tbsp cream and fresh coriander'',
          ''Serve hot with rotis or steamed rice''],
       r_substitutions =
         [''Use mustard greens mixed with spinach for variation'',
          ''Add a pinch of sugar to balance the flavors'',
          ''Use butter instead of ghee for richer taste''],
       r_warnings =
         [''Potential allergens: Dairy (paneer, cream, ghee)'',
          (''Don'' @ [CHR 0x27] @ ''t boil the curry after adding cream'')] \<rparr>"

definition generateFreshRecipe :: "item list \<Rightarrow> int \<Rightarrow> recipe" where
  "generateFreshRecipe ingredients numServings =
     \<lparr> r_title = ''Fresh '' @ first_label ingredients @ '' Bowl'',
       r_servings = numServings,
       r_estimated_time = ''10 minutes'',
       r_tags = [''fresh'',
                ''raw'',
                ''healthy'',
                ''10-min''],
       r_ingredients = map recipe_ingredient_of ingredients,
       r_steps =
         [''Wash all ingredients thoroughly under cold running water'',
          ''Pat dry with clean paper towels or kitchen cloth'',
          ''Cut ingredients into bite-sized pieces using a sharp knife'',
          ''Arrange attractively in a serving bowl or individual plates'',
          ''Drizzle with fresh lemon juice or your favorite dressing'',
          ''Season with salt and freshly ground black pepper to taste'',
          ''Serve immediately while fresh and crisp''],
       r_substitutions =
         [''Add toasted nuts or seeds for extra crunch and protein'',
          ''Use balsamic vinegar instead of lemon juice'',
          ''Drizzle with extra virgin olive oil for healthy fats''],
       r_warnings =
         [''Wash all fresh ingredients thoroughly to remove dirt and bacteria'',
          ''Consume immediately for best texture and nutrition''] \<rparr>"

definition generateCookedRecipe :: "item list \<Rightarrow> int \<Rightarrow> recipe" where
  "generateCookedRecipe ingredients numServings =
     \<lparr> r_title = ''Saut'' @ [CHR 0xC3, CHR 0xA9] @ ''ed '' @ first_label ingredients @ '' Stir-Fry'',
       r_servings = numServings,
       r_estimated_time = ''20 minutes'',
       r_tags = [''cooked'',
                (''saut'' @ [CHR 0xC3, CHR 0xA9] @ ''ed''),
                ''warm'',
                ''20-min''],
       r_ingredients = map recipe_ingredient_of ingredients,
       r_steps =
         [''Heat 2 tablespoons oil in a large pan or wok over medium-high heat'',
          ''Add harder ingredients first (like potatoes, carrots) if present'',
          ''Cook for 3-5 minutes until starting to soften'',
          ''Add softer ingredients (like leafy greens, tomatoes)'',
          ''Stir-fry for 2-3 minutes until heated through but still crisp'',
          ''Season with salt, pepper, and your favorite spices'',
          ''Add a splash of soy sauce or lemon juice for extra flavor'',
          ''Serve hot as a side dish or main course''],
       r_substitutions =
         [''Use butter instead of oil for richer flavor'',
          ''Add garlic and ginger for extra aroma'',
          ''Include your favorite herbs and spices''],
       r_warnings =
         [(''Don'' @ [CHR 0x27] @ ''t overcook vegetables to maintain nutrients and texture''),
          ''Cook to safe internal temperatures for any meat or eggs''] \<rparr>"

definition generateBakedRecipe :: "item list \<Rightarrow> int \<Rightarrow> recipe" where
  "generateBakedRecipe ingredients numServings =
     \<lparr> r_title = ''Roasted '' @ first_label ingredients @ '' Medley'',
       r_servings = numServings,
       r_estimated_time = ''35 minutes'',
       r_tags = [''baked'',
                ''roasted'',
                ''warm'',
                ''35-min''],
       r_ingredients = map recipe_ingredient_of ingredients,
       r_steps =
         [(''Preheat oven to 400'' @ [CHR 0xC2, CHR 0xB0] @ ''F (200'' @ [CHR 0xC2, CHR 0xB0] @ ''C)''),
          ''Wash and cut ingredients into uniform pieces'',
          ''Toss with 2-3 tablespoons olive oil in a large bowl'',
          ''Season generously with salt, pepper, and herbs'',
          ''Arrange in a single layer on a large baking sheet'',
          ''Roast for 20-25 minutes, flipping halfway through'',
          ''Cook until tender and lightly golden brown'',
          ''Serve hot as a side dish or light meal''],
       r_substitutions =
         [''Add herbs like rosemary, thyme, or oregano'',
          ''Drizzle with balsamic vinegar before serving'',
          ''Top with grated cheese in the last 5 minutes''],
       r_warnings =
         [(''Don'' @ [CHR 0x27] @ ''t overcrowd the baking sheet for even cooking''),
          ''Check for doneness with a fork - should be tender''] \<rparr>"

text \<open>
  \<open>i.label.toLowerCase()\<close> over the main ingredients: calling \<open>toLowerCase\<close> on an
  absent label raises a \<open>TypeError\<close>, which ends the \<open>map\<close>.
\<close>

datatype js_error = TypeError

fun lower_labels :: "item list \<Rightarrow> js_error + string list" where
  "lower_labels [] = Inr []"
| "lower_labels (i # is) =
     (case label i of
        None \<Rightarrow> Inl TypeError
      | Some l \<Rightarrow> (case lower_labels is of Inl e \<Rightarrow> Inl e | Inr ls \<Rightarrow> Inr (toLowerCase l # ls)))"

text \<open>
  \<open>generateMultipleMockRecipes(ingredients, servings, preferences)\<close>. The third argument, \<open>preferences\<close>, is not read.
  The three \<open>push\<close> calls of either branch give the returned array.
\<close>

definition generateMultipleMockRecipes :: "item list \<Rightarrow> int \<Rightarrow> 'p \<Rightarrow> js_error + recipe list" where
  "generateMultipleMockRecipes ingredients numServings preferences =
     (let mainIngredients = filter (\<lambda>it. label it \<noteq> Some ''food'' \<and> label it \<noteq> Some ''produce'') ingredients;
          primaryIngredient = (case mainIngredients of [] \<Rightarrow> ''food'' | i # _ \<Rightarrow> or_str (label i) ''food'')
      in case lower_labels mainIngredients of
           Inl e \<Rightarrow> Inl e
         | Inr ingredientNames \<Rightarrow>
             if ''paneer'' \<in> set ingredientNames \<and> ''spinach'' \<in> set ingredientNames then
               Inr [generatePalakPaneerRecipe ingredients numServings,
                    generatePaneerSpinachSaladRecipe ingredients numServings,
                    generateSpinachPaneerCurryRecipe ingredients numServings]
             else
               Inr [generateFreshRecipe ingredients numServings,
                    generateCookedRecipe ingredients numServings,
                    generateBakedRecipe ingredients numServings])"

subsection \<open>The state of the recipe screen and its calls\<close>

text \<open>
  A number cell of a nutrition object: \<open>Math.round(300 / servings)\<close> is not finite when
  \<open>servings\<close> is 0.
\<close>

datatype js_number = Finite real | NotFinite

record nutrient_values =
  kcal :: "js_number option"
  protein_g :: "js_number option"
  carb_g :: "js_number option"
  fat_g :: "js_number option"
  fiber_g :: "js_number option"

record nutrition_info =
  per_serving :: nutrient_values
  totals_per_recipe :: nutrient_values

text \<open>A recipe object of an API response, as far as the screen reads it.\<close>

record recipe_json =
  rj_id :: "string option"
  rj_ai_generated :: "bool option"
  rj_title :: "string option"
  rj_steps :: "string list option"

record mock_ingredient =
  mi_name :: "string option"
  mi_grams :: "real option"
  mi_notes :: string
  mi_fdc_id :: string

record mock_recipe =
  mr_title :: string
  mr_servings :: int
  mr_estimated_time :: string
  mr_difficulty :: string
  mr_cuisine :: string
  mr_meal_type :: string
  mr_recipe_category :: string
  mr_tags :: "string list"
  mr_ingredients :: "mock_ingredient list"
  mr_steps :: "string list"
  mr_substitutions :: "string list"
  mr_warnings :: "string list"

datatype shown_recipe = ApiRecipe recipe_json | MockRecipe mock_recipe

text \<open>
  The \<open>useState\<close> cells of \<open>RecipeScreen\<close> that recipe generation reads or writes
  (the cells for the user name and for the visibility of the selector dialogs are left out).
\<close>

record recipe_state =
  rs_loading :: bool
  rs_recipe :: "shown_recipe option"
  rs_nutrition :: "nutrition_info option"
  rs_recipeOptions :: "recipe_json list option"
  rs_showRecipeSelection :: bool
  rs_selectedRecipeIndex :: nat
  rs_selectedCuisine :: string
  rs_selectedSkillLevel :: string
  rs_dietaryRestrictions :: "string list"
  rs_selectedMealType :: string
  rs_selectedRecipeCategory :: string
  rs_isFruitDetected :: bool

text \<open>The body of \<open>POST /recipes\<close> that \<open>apiService.createRecipe\<close> sends.\<close>

record create_request =
  cr_scan_id :: string
  cr_servings :: int
  cr_cuisine :: string
  cr_skill_level :: string
  cr_dietary_restrictions :: "string list"
  cr_meal_type :: string
  cr_recipe_category :: string
  cr_test_mode :: bool

text \<open>The body of the response to it, and of the response to \<open>GET /recipes/{id}\<close>.\<close>

record create_data =
  recipe_ids :: "string list option"
  recipes :: "recipe_json list option"
  recipe_id :: "string option"
  test_mode :: bool

record recipe_detail =
  rd_recipe :: "recipe_json option"
  rd_nutrition :: "nutrition_info option"

text \<open>What a button of an alert of this screen is bound to.\<close>

datatype recipe_action = PressGenerateRecipe | PressGenerateMockRecipe | PressGoBack

datatype recipe_effect =
    CreateRecipe create_request
  | GetRecipe "string option"
  | RecipeAlert string string "(string \<times> recipe_action) list"

text \<open>
  The outcome of \<open>Promise.race\<close> between \<open>createRecipe\<close> and the 15 second timer.
\<close>

datatype create_outcome = TimedOut | Resolved "create_data api_result"

subsection \<open>generateRecipe\<close>

definition fixed_nutrition :: nutrition_info where
  "fixed_nutrition =
     \<lparr> per_serving =
         \<lparr> kcal = Some (Finite 150), protein_g = Some (Finite 3), carb_g = Some (Finite 15),
           fat_g = Some (Finite 8), fiber_g = None \<rparr>,
       totals_per_recipe =
         \<lparr> kcal = Some (Finite 300), protein_g = Some (Finite 6), carb_g = Some (Finite 30),
           fat_g = Some (Finite 16), fiber_g = None \<rparr> \<rparr>"

text \<open>
  \<open>await apiService.getRecipe(id)\<close> and what follows it, up to and without the last
  statement of the branch: the state, and the message of the error thrown, if any.
  Reading \<open>recipeData.recipe\<close> of a \<open>null\<close> body raises a \<open>TypeError\<close>, whose
  message is the engine's (\<open>typeErrorMsg\<close>).
\<close>

definition fetch_recipe_details ::
  "string \<Rightarrow> recipe_detail api_result \<Rightarrow> recipe_state \<Rightarrow> recipe_state \<times> string option" where
  "fetch_recipe_details typeErrorMsg recipeResponse st =
     (case recipeResponse of
        ApiSuccess (Some recipeData) \<Rightarrow>
          (st\<lparr>rs_recipe := map_option ApiRecipe (rd_recipe recipeData),
               rs_nutrition := rd_nutrition recipeData\<rparr>, None)
      | ApiSuccess None \<Rightarrow> (st, Some typeErrorMsg)
      | ApiFailure e \<Rightarrow> (st, Some ''Failed to fetch recipe details'')
      | ApiThrows m \<Rightarrow> (st, Some m))"

text \<open>
  The \<open>try\<close> block of \<open>generateRecipe\<close>: the state it leaves, the calls it made and
  the message of the error it threw, if any. \<open>scanId\<close> and \<open>servings\<close> are route
  parameters.
\<close>

definition generateRecipe_try ::
  "string \<Rightarrow> string \<Rightarrow> int \<Rightarrow> create_outcome \<Rightarrow> recipe_detail api_result \<Rightarrow> recipe_state
     \<Rightarrow> recipe_state \<times> recipe_effect list \<times> string option" where
  "generateRecipe_try typeErrorMsg scanId numServings createResponse recipeResponse st =
     (let request =
            CreateRecipe
              \<lparr> cr_scan_id = scanId,
                cr_servings = numServings,
                cr_cuisine = (if rs_isFruitDetected st then ''healthy'' else rs_selectedCuisine st),
                cr_skill_level = rs_selectedSkillLevel st,
                cr_dietary_restrictions = rs_dietaryRestrictions st,
                cr_meal_type = rs_selectedMealType st,
                cr_recipe_category = rs_selectedRecipeCategory st,
                cr_test_mode = False \<rparr>
      in case createResponse of
           TimedOut \<Rightarrow> (st, [request], Some ''Request timeout after 15 seconds'')
         | Resolved (ApiThrows m) \<Rightarrow> (st, [request], Some m)
         | Resolved (ApiFailure e) \<Rightarrow>
             (st, [request], Some (or_str (Some e) ''Unexpected API response format''))
         | Resolved (ApiSuccess None) \<Rightarrow> (st, [request], Some typeErrorMsg)
         | Resolved (ApiSuccess (Some d)) \<Rightarrow>
             if recipe_ids d \<noteq> None then
               (case recipes d of
                  None \<Rightarrow> (st\<lparr>rs_recipeOptions := None\<rparr>, [request], Some typeErrorMsg)
                | Some recipeOptions \<Rightarrow>
                    (let st1 = st\<lparr>rs_recipeOptions := Some recipeOptions\<rparr> in
                     case recipeOptions of
                       [r] \<Rightarrow>
                         if test_mode d \<or> rj_ai_generated r \<noteq> None then
                           (st1\<lparr>rs_recipe := Some (ApiRecipe r),
                                rs_nutrition := Some fixed_nutrition,
                                rs_selectedRecipeIndex := 0,
                                rs_loading := False\<rparr>, [request], None)
                         else
                           (case fetch_recipe_details typeErrorMsg recipeResponse st1 of
                              (st2, None) \<Rightarrow>
                                (st2\<lparr>rs_selectedRecipeIndex := 0, rs_loading := False\<rparr>,
                                 [request, GetRecipe (rj_id r)], None)
                            | (st2, Some m) \<Rightarrow> (st2, [request, GetRecipe (rj_id r)], Some m))
                     | _ \<Rightarrow>
                         (st1\<lparr>rs_showRecipeSelection := True, rs_loading := False\<rparr>, [request], None)))
             else if or_str (recipe_id d) [] \<noteq> [] then
               (case fetch_recipe_details typeErrorMsg recipeResponse st of
                  (st2, None) \<Rightarrow> (st2\<lparr>rs_loading := False\<rparr>, [request, GetRecipe (recipe_id d)], None)
                | (st2, Some m) \<Rightarrow> (st2, [request, GetRecipe (recipe_id d)], Some m))
             else (st, [request], Some ''Unexpected API response format''))"

text \<open>The alert of the \<open>catch\<close> block, chosen by the words of the error message.\<close>

definition failure_buttons :: "string \<Rightarrow> (string \<times> recipe_action) list" where
  "failure_buttons retryText =
     [(retryText, PressGenerateRecipe),
      (''Use Mock Recipe'', PressGenerateMockRecipe),
      (''Go Back'', PressGoBack)]"

definition failure_alert :: "string \<Rightarrow> recipe_effect" where
  "failure_alert message =
     (let isNoRecipeError = (str_includes message ''Recipe generation failed''
                               \<or> str_includes message ''AI could not generate recipes'');
          isNetworkError = (str_includes message ''timeout'' \<or> str_includes message ''Network''
                              \<or> str_includes message ''fetch'')
      in if isNetworkError then
           RecipeAlert ''Connection Issue''
             ((''Unable to connect to the recipe service. Please check your internet connection and try again.'' @ [CHR 0x0A, CHR 0x0A] @ ''Error: '') @ message)
             (failure_buttons ''Retry'')
         else if isNoRecipeError then
           RecipeAlert ''No Recipes Found''
             (''Our AI couldn'' @ [CHR 0x27] @ ''t generate recipes for your ingredients. This might be because:'' @ [CHR 0x0A, CHR 0x0A, CHR 0xE2, CHR 0x80, CHR 0xA2] @ '' The ingredients are unusual or not commonly cooked together'' @ [CHR 0x0A, CHR 0xE2, CHR 0x80, CHR 0xA2] @ '' The AI service is temporarily unavailable'' @ [CHR 0x0A, CHR 0xE2, CHR 0x80, CHR 0xA2] @ '' The ingredient detection wasn'' @ [CHR 0x27] @ ''t accurate'' @ [CHR 0x0A, CHR 0x0A] @ ''Please try scanning different ingredients or try again later.'')
             (failure_buttons ''Try Again'')
         else
           RecipeAlert ''Recipe Generation Failed''
             (''Unable to generate recipes: '' @ message @ ([CHR 0x0A, CHR 0x0A] @ ''Please try again or check your connection.''))
             (failure_buttons ''Retry''))"

text \<open>
  \<open>generateRecipe\<close>: the \<open>try\<close> block, and on an error the \<open>catch\<close> block, which
  clears \<open>loading\<close> and raises the alert.
\<close>

definition generateRecipe ::
  "string \<Rightarrow> string \<Rightarrow> int \<Rightarrow> create_outcome \<Rightarrow> recipe_detail api_result \<Rightarrow> recipe_state
     \<Rightarrow> recipe_state \<times> recipe_effect list" where
  "generateRecipe typeErrorMsg scanId numServings createResponse recipeResponse st =
     (case generateRecipe_try typeErrorMsg scanId numServings createResponse recipeResponse st of
        (st', es, None) \<Rightarrow> (st', es)
      | (st', es, Some message) \<Rightarrow> (st'\<lparr>rs_loading := False\<rparr>, es @ [failure_alert message]))"

subsection \<open>generateMockRecipe\<close>

text \<open>\<open>s.charAt(0).toUpperCase() + s.slice(1)\<close> on the ASCII letters.\<close>

definition capitalize :: "string \<Rightarrow> string" where
  "capitalize s = (case s of [] \<Rightarrow> [] | c # cs \<Rightarrow> upper_char c # cs)"

text \<open>\<open>Math.round(amount / servings)\<close>\<close>

definition round_per_serving :: "real \<Rightarrow> int \<Rightarrow> js_number" where
  "round_per_serving amount numServings =
     (if numServings = 0 then NotFinite
      else Finite (of_int \<lfloor>amount / of_int numServings + 1 / 2\<rfloor>))"

text \<open>
  \<open>generateMockRecipe\<close>, the template recipe built from the selected preferences;
  \<open>confirmedItems\<close> and \<open>servings\<close> are route parameters.
\<close>

definition generateMockRecipe :: "item list option \<Rightarrow> int \<Rightarrow> recipe_state \<Rightarrow> recipe_state" where
  "generateMockRecipe confirmedItems numServings st =
     (let cuisineType = (if rs_isFruitDetected st then rs_selectedRecipeCategory st else rs_selectedCuisine st);
          mockRecipe =
            \<lparr> mr_title = ''Mock '' @ capitalize cuisineType @ '' Recipe'',
              mr_servings = numServings,
              mr_estimated_time = ''25 minutes'',
              mr_difficulty = rs_selectedSkillLevel st,
              mr_cuisine = cuisineType,
              mr_meal_type = rs_selectedMealType st,
              mr_recipe_category = rs_selectedRecipeCategory st,
              mr_tags = [cuisineType, rs_selectedSkillLevel st, rs_selectedMealType st, ''25-min''],
              mr_ingredients =
                (case confirmedItems of
                   Some its \<Rightarrow>
                     map (\<lambda>it. \<lparr> mi_name = label it, mi_grams = or_num (grams_est it) (Some 100),
                                 mi_notes = ''prepared as needed'', mi_fdc_id = or_str (fdc_id it) [] \<rparr>) its
                 | None \<Rightarrow>
                     [\<lparr> mi_name = Some ''Main ingredient'', mi_grams = Some 200,
                        mi_notes = ''prepared as needed'', mi_fdc_id = [] \<rparr>]),
              mr_steps =
                [''Prepare all ingredients by washing and cutting as needed.'',
                 ''Heat 2 tablespoons oil in a large pan over medium heat.'',
                 ''Add the main ingredients and cook for 5-7 minutes.'',
                 ''Season with salt, pepper, and your favorite spices.'',
                 ''Continue cooking until ingredients are tender and well combined.'',
                 ''Taste and adjust seasoning as needed.'',
                 ''Serve hot and enjoy your meal!''],
              mr_substitutions =
                [''You can substitute ingredients based on what you have available'',
                 ''Adjust cooking time based on ingredient size and preference'',
                 ''Add herbs and spices to enhance flavor''],
              mr_warnings =
                [''This is a mock recipe for testing purposes'',
                 ''Adjust cooking times and temperatures as needed''] \<rparr>;
          mockNutrition =
            \<lparr> per_serving =
                \<lparr> kcal = Some (round_per_serving 300 numServings),
                  protein_g = Some (round_per_serving 15 numServings),
                  carb_g = Some (round_per_serving 35 numServings),
                  fat_g = Some (round_per_serving 12 numServings),
                  fiber_g = Some (round_per_serving 8 numServings) \<rparr>,
              totals_per_recipe =
                \<lparr> kcal = Some (Finite 300), protein_g = Some (Finite 15), carb_g = Some (Finite 35),
                  fat_g = Some (Finite 12), fiber_g = Some (Finite 8) \<rparr> \<rparr>
      in st\<lparr>rs_recipe := Some (MockRecipe mockRecipe), rs_nutrition := Some mockNutrition,
            rs_loading := False\<rparr>)"

section \<open>utils/constants.js\<close>

definition SCAN_STATUS :: "(string \<times> string) list" where
  "SCAN_STATUS =
     [(''PROCESSING'', ''processing''),
      (''READY'', ''ready''),
      (''CONFIRMED'', ''confirmed''),
      (''COMPLETED'', ''completed'')]"

section \<open>scripts/setup-database.sql\<close>

subsection \<open>SQL values and conditions\<close>

text \<open>
  A column value is \<open>None\<close> for \<open>NULL\<close>. A condition has three values, and a
  \<open>CHECK\<close> constraint rejects a row only when its condition is false.
\<close>

datatype sql_bool = SqlTrue | SqlFalse | SqlNull

definition sql_or :: "sql_bool \<Rightarrow> sql_bool \<Rightarrow> sql_bool" where
  "sql_or a b =
     (if a = SqlTrue \<or> b = SqlTrue then SqlTrue
      else if a = SqlNull \<or> b = SqlNull then SqlNull
      else SqlFalse)"

definition sql_eq :: "'a option \<Rightarrow> 'a \<Rightarrow> sql_bool" where
  "sql_eq x v = (case x of None \<Rightarrow> SqlNull | Some y \<Rightarrow> if y = v then SqlTrue else SqlFalse)"

definition sql_in :: "'a option \<Rightarrow> 'a list \<Rightarrow> sql_bool" where
  "sql_in x vs = (case x of None \<Rightarrow> SqlNull | Some y \<Rightarrow> if y \<in> set vs then SqlTrue else SqlFalse)"

definition sql_is_not_null :: "'a option \<Rightarrow> sql_bool" where
  "sql_is_not_null x = (if x = None then SqlFalse else SqlTrue)"

definition check_passes :: "sql_bool \<Rightarrow> bool" where
  "check_passes b = (b \<noteq> SqlFalse)"

text \<open>
  A column of an \<open>INSERT\<close>: left out, so that the column's \<open>DEFAULT\<close> applies
  (\<open>NULL\<close> when the column declares none), or given, possibly as \<open>NULL\<close>.
\<close>

datatype 'a column_value = UseDefault | Given "'a option"

definition with_default :: "'a option \<Rightarrow> 'a column_value \<Rightarrow> 'a option" where
  "with_default d c = (case c of UseDefault \<Rightarrow> d | Given v \<Rightarrow> v)"

datatype sql_error = NotNullViolation | CheckViolation | UniqueViolation | ForeignKeyViolation

subsection \<open>The tables \<open>scans\<close> and \<open>scan_items\<close>\<close>

text \<open>UUIDs are strings and timestamps are integers.\<close>

record scans_row =
  sc_id :: "string option"
  sc_user_id :: "string option"
  sc_s3_key :: "string option"
  sc_status :: "string option"
  sc_created_at :: "int option"

record scan_items_row =
  si_id :: "string option"
  si_scan_id :: "string option"
  si_label :: "string option"
  si_fdc_id :: "string option"
  si_confidence :: "real option"
  si_grams_est :: "real option"
  si_grams :: "real option"
  si_confirmed :: "bool option"
  si_created_at :: "int option"

record database =
  scans :: "scans_row list"
  scan_items :: "scan_items_row list"

definition empty_database :: database where
  "empty_database = \<lparr> scans = [], scan_items = [] \<rparr>"

text \<open>\<open>CHECK (status IN ('processing','ready','confirmed','completed'))\<close>\<close>

definition scans_status_check :: "scans_row \<Rightarrow> sql_bool" where
  "scans_status_check row =
     sql_in (sc_status row) [''processing'', ''ready'', ''confirmed'', ''completed'']"

text \<open>
  \<open>CONSTRAINT scan_items_confirmed_requires_grams
     CHECK (confirmed = FALSE OR grams IS NOT NULL)\<close>
\<close>

definition scan_items_confirmed_requires_grams :: "scan_items_row \<Rightarrow> sql_bool" where
  "scan_items_confirmed_requires_grams row =
     sql_or (sql_eq (si_confirmed row) False) (sql_is_not_null (si_grams row))"

text \<open>
  The column constraints of a row by itself: the primary key and the \<open>NOT NULL\<close>
  columns hold a value, and the \<open>CHECK\<close> constraint is not false.
\<close>

definition scans_row_error :: "scans_row \<Rightarrow> sql_error option" where
  "scans_row_error row =
     (if sc_id row = None \<or> sc_user_id row = None \<or> sc_s3_key row = None \<or> sc_status row = None
      then Some NotNullViolation
      else if \<not> check_passes (scans_status_check row) then Some CheckViolation
      else None)"

definition scan_items_row_error :: "scan_items_row \<Rightarrow> sql_error option" where
  "scan_items_row_error row =
     (if si_id row = None \<or> si_scan_id row = None \<or> si_label row = None \<or> si_confirmed row = None
      then Some NotNullViolation
      else if \<not> check_passes (scan_items_confirmed_requires_grams row) then Some CheckViolation
      else None)"

text \<open>
  The constraints of the two tables together: those of each row, the primary keys, and the
  foreign key \<open>scan_items.scan_id REFERENCES scans(id)\<close>. The first violation found is
  the error of the statement.
\<close>

definition first_error :: "sql_error option list \<Rightarrow> sql_error option" where
  "first_error es = (case filter (\<lambda>e. e \<noteq> None) es of [] \<Rightarrow> None | e # _ \<Rightarrow> e)"

definition database_error :: "database \<Rightarrow> sql_error option" where
  "database_error db =
     first_error
       (map scans_row_error (scans db) @ map scan_items_row_error (scan_items db) @
        [if distinct (map sc_id (scans db)) \<and> distinct (map si_id (scan_items db))
         then None else Some UniqueViolation,
         if \<forall>i \<in> set (scan_items db). si_scan_id i \<in> set (map sc_id (scans db))
         then None else Some ForeignKeyViolation])"

subsection \<open>Statements\<close>

text \<open>
  The statements that change the two tables. An \<open>INSERT\<close> gives each column or leaves it
  to its default; \<open>gen_random_uuid()\<close> and \<open>now()\<close> are the values the server draws
  for the statement. An \<open>UPDATE\<close> is its \<open>SET\<close> clause, as a function on rows, and its
  \<open>WHERE\<close> clause; a \<open>DELETE\<close> is its \<open>WHERE\<close> clause.
\<close>

record scans_insert =
  ins_sc_id :: "string column_value"
  ins_sc_user_id :: "string column_value"
  ins_sc_s3_key :: "string column_value"
  ins_sc_status :: "string column_value"
  ins_sc_created_at :: "int column_value"

record scan_items_insert =
  ins_si_id :: "string column_value"
  ins_si_scan_id :: "string column_value"
  ins_si_label :: "string column_value"
  ins_si_fdc_id :: "string column_value"
  ins_si_confidence :: "real column_value"
  ins_si_grams_est :: "real column_value"
  ins_si_grams :: "real column_value"
  ins_si_confirmed :: "bool column_value"
  ins_si_created_at :: "int column_value"

datatype statement =
    InsertScans scans_insert string int
  | UpdateScans "scans_row \<Rightarrow> scans_row" "scans_row \<Rightarrow> bool"
  | DeleteScans "scans_row \<Rightarrow> bool"
  | InsertScanItems scan_items_insert string int
  | UpdateScanItems "scan_items_row \<Rightarrow> scan_items_row" "scan_items_row \<Rightarrow> bool"
  | DeleteScanItems "scan_items_row \<Rightarrow> bool"

definition scans_row_of :: "scans_insert \<Rightarrow> string \<Rightarrow> int \<Rightarrow> scans_row" where
  "scans_row_of ins gen_random_uuid now =
     \<lparr> sc_id = with_default (Some gen_random_uuid) (ins_sc_id ins),
       sc_user_id = with_default None (ins_sc_user_id ins),
       sc_s3_key = with_default None (ins_sc_s3_key ins),
       sc_status = with_default (Some ''processing'') (ins_sc_status ins),
       sc_created_at = with_default (Some now) (ins_sc_created_at ins) \<rparr>"

definition scan_items_row_of :: "scan_items_insert \<Rightarrow> string \<Rightarrow> int \<Rightarrow> scan_items_row" where
  "scan_items_row_of ins gen_random_uuid now =
     \<lparr> si_id = with_default (Some gen_random_uuid) (ins_si_id ins),
       si_scan_id = with_default None (ins_si_scan_id ins),
       si_label = with_default None (ins_si_label ins),
       si_fdc_id = with_default None (ins_si_fdc_id ins),
       si_confidence = with_default None (ins_si_confidence ins),
       si_grams_est = with_default None (ins_si_grams_est ins),
       si_grams = with_default None (ins_si_grams ins),
       si_confirmed = with_default (Some False) (ins_si_confirmed ins),
       si_created_at = with_default (Some now) (ins_si_created_at ins) \<rparr>"

text \<open>
  The tables after a statement, before the constraints are checked. Deleting a scan deletes
  its items (\<open>ON DELETE CASCADE\<close>).
\<close>

fun apply_statement :: "statement \<Rightarrow> database \<Rightarrow> database" where
  "apply_statement (InsertScans ins uuid now) db =
     db\<lparr>scans := scans db @ [scans_row_of ins uuid now]\<rparr>"
| "apply_statement (UpdateScans f p) db =
     db\<lparr>scans := map (\<lambda>r. if p r then f r else r) (scans db)\<rparr>"
| "apply_statement (DeleteScans p) db =
     (let kept = filter (\<lambda>r. \<not> p r) (scans db)
      in \<lparr> scans = kept,
           scan_items = filter (\<lambda>i. si_scan_id i \<in> set (map sc_id kept)) (scan_items db) \<rparr>)"
| "apply_statement (InsertScanItems ins uuid now) db =
     db\<lparr>scan_items := scan_items db @ [scan_items_row_of ins uuid now]\<rparr>"
| "apply_statement (UpdateScanItems f p) db =
     db\<lparr>scan_items := map (\<lambda>r. if p r then f r else r) (scan_items db)\<rparr>"
| "apply_statement (DeleteScanItems p) db =
     db\<lparr>scan_items := filter (\<lambda>r. \<not> p r) (scan_items db)\<rparr>"

text \<open>A statement that violates a constraint fails and changes nothing.\<close>

definition execute :: "statement \<Rightarrow> database \<Rightarrow> sql_error + database" where
  "execute stmt db =
     (case database_error (apply_statement stmt db) of
        Some e \<Rightarrow> Inl e
      | None \<Rightarrow> Inr (apply_statement stmt db))"

text \<open>The database after a sequence of statements, from the empty tables the script creates.\<close>

definition run_statements :: "statement list \<Rightarrow> database" where
  "run_statements stmts =
     fold (\<lambda>stmt db. case execute stmt db of Inl e \<Rightarrow> db | Inr db' \<Rightarrow> db') stmts empty_database"

section \<open>services/auth.js and services/api.js\<close>

text \<open>
  \<open>authService.getUserToken\<close> gives the id token of the session, or nothing when there
  is no session; \<open>getAuthHeaders\<close> turns it into the \<open>Authorization\<close> header, which
  is the empty string without a token.
\<close>

record http_request =
  hr_method :: string
  hr_path :: string
  hr_content_type :: "string option"
  hr_authorization :: "string option"
  hr_body :: "string option"

record http_response =
  status :: nat
  body :: string

definition authorization_header :: "string option \<Rightarrow> string" where
  "authorization_header token =
     (case token of None \<Rightarrow> [] | Some t \<Rightarrow> if t = [] then [] else ''Bearer '' @ t)"

text \<open>The methods of \<open>ApiService\<close> that go through \<open>apiCall\<close>, with their arguments.\<close>

datatype api_operation =
    GetPresignedUrl
  | StartScan
  | GetScanResults string
  | ConfirmScanItems string
  | CreateRecipeFromScan
  | GetRecipeById string
  | LogMeal

fun request_line :: "api_operation \<Rightarrow> string \<times> string" where
  "request_line GetPresignedUrl = (''POST'', ''/uploads/presign'')"
| "request_line StartScan = (''POST'', ''/scans'')"
| "request_line (GetScanResults scanId) = (''GET'', ''/scans/'' @ scanId)"
| "request_line (ConfirmScanItems scanId) = (''POST'', ''/scans/'' @ scanId @ ''/confirm'')"
| "request_line CreateRecipeFromScan = (''POST'', ''/recipes'')"
| "request_line (GetRecipeById recipeId) = (''GET'', ''/recipes/'' @ recipeId)"
| "request_line LogMeal = (''POST'', ''/meals'')"

text \<open>The request \<open>apiCall\<close> sends for an operation, given the token and the body.\<close>

definition api_request :: "string option \<Rightarrow> api_operation \<Rightarrow> string option \<Rightarrow> http_request" where
  "api_request token operation requestBody =
     \<lparr> hr_method = fst (request_line operation),
       hr_path = snd (request_line operation),
       hr_content_type = Some ''application/json'',
       hr_authorization = Some (authorization_header token),
       hr_body = requestBody \<rparr>"

fun decimal :: "nat \<Rightarrow> string" where
  "decimal n =
     (if n < 10 then [''0123456789'' ! n]
      else decimal (n div 10) @ [''0123456789'' ! (n mod 10)])"

text \<open>
  What \<open>apiCall\<close> resolves to for a response: the parsed body (\<open>parse\<close> stands for
  \<open>response.json()\<close>) when the status is 2xx, and otherwise the failure made from the
  \<open>HTTP error!\<close> exception it throws and catches itself.
\<close>

definition apiCall_result :: "(string \<Rightarrow> 'a option) \<Rightarrow> http_response \<Rightarrow> 'a api_result" where
  "apiCall_result parse response =
     (if 200 \<le> status response \<and> status response \<le> 299 then ApiSuccess (parse (body response))
      else ApiFailure (''HTTP error! status: '' @ decimal (status response) @ '', body: '' @ body response))"

subsection \<open>The API in front of the serverless functions\<close>

text \<open>
  Modelled from the spec: the server side of the REST surface. The stack that declares the
  API and its authorizer (\<open>lib/aye-aye-stack\<close>) and the serverless functions behind it are
  not among the sources; only the client, the API documentation and the test scripts that
  expect status 401 without authentication are. Following the spec (a conventional CRUD API
  over JSON with bearer-token authentication) and the documentation (all endpoints require
  a JWT in \<open>Authorization: Bearer <jwt-token>\<close>), a request reaches the function behind
  its endpoint only with a bearer token that the identity provider accepts (\<open>valid\<close>);
  any other request is answered with status 401 (the body stands for the documented error
  code \<open>INVALID_TOKEN\<close>) and nothing is done.
\<close>

definition bearer_token :: "http_request \<Rightarrow> string option" where
  "bearer_token request =
     (case hr_authorization request of
        None \<Rightarrow> None
      | Some h \<Rightarrow> if startsWith h ''Bearer '' then Some (drop 7 h) else None)"

text \<open>
  Modelled from the spec: a request is authenticated when it carries a bearer token that the
  identity provider accepts. The authorizer is not among the sources.
\<close>

definition authenticated :: "(string \<Rightarrow> bool) \<Rightarrow> http_request \<Rightarrow> bool" where
  "authenticated valid request =
     (case bearer_token request of None \<Rightarrow> False | Some t \<Rightarrow> valid t)"

text \<open>
  Modelled from the spec: bearer-token authentication in front of every endpoint. The
  function behind the endpoint (\<open>backend\<close>, not among the sources) runs on the state of the
  server only for an authenticated request.
\<close>

definition api_gateway ::
  "(string \<Rightarrow> bool) \<Rightarrow> (http_request \<Rightarrow> 'srv \<Rightarrow> http_response \<times> 'srv) \<Rightarrow> http_request \<Rightarrow> 'srv
     \<Rightarrow> http_response \<times> 'srv" where
  "api_gateway valid backend request srv =
     (if authenticated valid request then backend request srv
      else (\<lparr> status = 401, body = ''INVALID_TOKEN'' \<rparr>, srv))"

section \<open>Properties of states and of call traces\<close>


text \<open>The \<open>getScan\<close> calls and the alerts among the calls of the confirm screen.\<close>

fun is_GetScan :: "confirm_effect \<Rightarrow> bool" where
  "is_GetScan (GetScan scanId) = True"
| "is_GetScan e = False"

definition getScan_calls :: "confirm_effect list \<Rightarrow> nat" where
  "getScan_calls es = length (filter is_GetScan es)"

fun alert_of :: "confirm_effect \<Rightarrow> (string \<times> string) option" where
  "alert_of (Alert t m) = Some (t, m)"
| "alert_of e = None"

definition alerts :: "confirm_effect list \<Rightarrow> (string \<times> string) list" where
  "alerts es = List.map_filter alert_of es"

text \<open>
  A response on which \<open>loadScanResults\<close> schedules itself again: the fetch succeeded,
  without items, and the status is \<open>processing\<close>.
\<close>

definition polls_again :: "scan_data api_result \<Rightarrow> bool" where
  "polls_again result =
     (case result of
        ApiSuccess (Some d) \<Rightarrow>
          (sd_items d = None \<or> sd_items d = Some []) \<and> sd_status d = Some ''processing''
      | _ \<Rightarrow> False)"

text \<open>The \<open>createRecipe\<close> calls among the calls of the recipe screen.\<close>

fun is_CreateRecipe :: "recipe_effect \<Rightarrow> bool" where
  "is_CreateRecipe (CreateRecipe request) = True"
| "is_CreateRecipe e = False"

definition createRecipe_calls :: "recipe_effect list \<Rightarrow> nat" where
  "createRecipe_calls es = length (filter is_CreateRecipe es)"

text \<open>The buttons of an alert of the recipe screen.\<close>

fun alert_buttons :: "recipe_effect \<Rightarrow> (string \<times> recipe_action) list" where
  "alert_buttons (RecipeAlert t m buttons) = buttons"
| "alert_buttons e = []"

section \<open>Example inputs\<close>

text \<open>Concrete items, responses and states on which the theorems below are instantiated.\<close>

definition unlabeled_item :: item where
  "unlabeled_item =
     \<lparr> label = None, fdc_id = None, confidence = None, grams_est = Some 50,
       grams = None, confirmed = False, manually_added = None \<rparr>"

definition empty_label_item :: item where
  "empty_label_item =
     \<lparr> label = Some [], fdc_id = None, confidence = None, grams_est = Some 50,
       grams = None, confirmed = False, manually_added = None \<rparr>"

definition banana_item :: item where
  "banana_item =
     \<lparr> label = Some ''Banana'', fdc_id = Some ''09040'', confidence = Some (9 / 10),
       grams_est = Some 120, grams = None, confirmed = False, manually_added = None \<rparr>"

definition insert_scan_1 :: statement where
  "insert_scan_1 =
     InsertScans
       \<lparr> ins_sc_id = Given (Some ''scan-1''), ins_sc_user_id = Given (Some ''user-1''),
         ins_sc_s3_key = Given (Some ''images/1.jpg''), ins_sc_status = UseDefault,
         ins_sc_created_at = UseDefault \<rparr>
       ''uuid-1'' 1000"

definition insert_scan_bad_status :: statement where
  "insert_scan_bad_status =
     InsertScans
       \<lparr> ins_sc_id = Given (Some ''scan-2''), ins_sc_user_id = Given (Some ''user-1''),
         ins_sc_s3_key = Given (Some ''images/2.jpg''), ins_sc_status = Given (Some ''failed''),
         ins_sc_created_at = UseDefault \<rparr>
       ''uuid-2'' 1001"

definition update_scan_1_confirmed :: statement where
  "update_scan_1_confirmed =
     UpdateScans (\<lambda>r. r\<lparr>sc_status := Some ''confirmed''\<rparr>) (\<lambda>r. sc_id r = Some ''scan-1'')"

definition insert_item_confirmed :: statement where
  "insert_item_confirmed =
     InsertScanItems
       \<lparr> ins_si_id = UseDefault, ins_si_scan_id = Given (Some ''scan-1''),
         ins_si_label = Given (Some ''banana''), ins_si_fdc_id = Given (Some ''09040''),
         ins_si_confidence = Given (Some (9 / 10)), ins_si_grams_est = Given (Some 120),
         ins_si_grams = Given (Some 120), ins_si_confirmed = Given (Some True),
         ins_si_created_at = UseDefault \<rparr>
       ''uuid-3'' 1002"

definition insert_item_confirmed_no_grams :: statement where
  "insert_item_confirmed_no_grams =
     InsertScanItems
       \<lparr> ins_si_id = UseDefault, ins_si_scan_id = Given (Some ''scan-1''),
         ins_si_label = Given (Some ''apple''), ins_si_fdc_id = UseDefault,
         ins_si_confidence = UseDefault, ins_si_grams_est = Given (Some 80),
         ins_si_grams = UseDefault, ins_si_confirmed = Given (Some True),
         ins_si_created_at = UseDefault \<rparr>
       ''uuid-4'' 1003"


definition fetched_banana :: "scan_data api_result" where
  "fetched_banana = ApiSuccess (Some \<lparr> sd_items = Some [banana_item], sd_status = Some ''ready'' \<rparr>)"

definition still_processing :: "scan_data api_result" where
  "still_processing = ApiSuccess (Some \<lparr> sd_items = Some [], sd_status = Some ''processing'' \<rparr>)"

definition ready_without_items :: "scan_data api_result" where
  "ready_without_items = ApiSuccess (Some \<lparr> sd_items = Some [], sd_status = Some ''ready'' \<rparr>)"

definition example_recipe_state :: recipe_state where
  "example_recipe_state =
     \<lparr> rs_loading = True, rs_recipe = None, rs_nutrition = None, rs_recipeOptions = Some [],
       rs_showRecipeSelection = False, rs_selectedRecipeIndex = 0,
       rs_selectedCuisine = ''italian'', rs_selectedSkillLevel = ''intermediate'',
       rs_dietaryRestrictions = [], rs_selectedMealType = ''lunch'',
       rs_selectedRecipeCategory = ''italian'', rs_isFruitDetected = False \<rparr>"



section \<open>Facts about strings and evaluation\<close>

lemmas string_eval_defs =
  toLowerCase_def lower_char_def upper_char_def upper_chars_def lower_chars_def startsWith_def

lemmas detect_eval_defs =
  detectFruits_def count_step_def isFruit_def isSmoothieVegetable_def label_lower_def
  COMMON_FRUITS_def SMOOTHIE_VEGETABLES_def

lemma str_includes_Nil: "str_includes s []"
  by (cases s) simp_all

lemma str_includes_self: "str_includes s s"
  by (cases s) simp_all

section \<open>Fruit detection\<close>

lemma fold_count_step:
  "fold count_step ings n = n + length (filter (\<lambda>i. isFruit i \<or> isSmoothieVegetable i) ings)"
  by (induction ings arbitrary: n) (simp_all add: count_step_def)

lemma COMMON_FRUITS_nonempty: "COMMON_FRUITS \<noteq> []"
  by (simp add: COMMON_FRUITS_def)

lemma isFruit_unlabeled:
  assumes "label i = None \<or> label i = Some []"
  shows "isFruit i"
proof -
  from assms have "label_lower i = []"
    by (auto simp: label_lower_def toLowerCase_def)
  then have "\<forall>fruit. str_includes fruit (label_lower i)"
    by (simp add: str_includes_Nil)
  then show ?thesis
    unfolding isFruit_def list_ex_iff using COMMON_FRUITS_nonempty
    by (metis last_in_set)
qed

lemma isFruit_listed:
  assumes "label i = Some l" and "toLowerCase l \<in> set COMMON_FRUITS"
  shows "isFruit i"
proof -
  have "label_lower i = toLowerCase l" using assms(1) by (simp add: label_lower_def)
  then have "str_includes (label_lower i) (toLowerCase l)" by (simp add: str_includes_self)
  with assms(2) show ?thesis unfolding isFruit_def list_ex_iff by blast
qed

lemma detectFruits_all_counted:
  assumes "ings \<noteq> []" and "\<forall>i \<in> set ings. isFruit i \<or> isSmoothieVegetable i"
  shows "detectFruits (Some ings)"
proof -
  have "filter (\<lambda>i. isFruit i \<or> isSmoothieVegetable i) ings = ings"
    using assms(2) by (simp add: filter_id_conv)
  then have "fold count_step ings 0 = length ings"
    by (simp add: fold_count_step)
  moreover have "length ings > 0" using assms(1) by simp
  ultimately show ?thesis
    by (simp add: detectFruits_def Let_def)
qed

text \<open>Whether an item is counted depends on its label alone.\<close>

lemma counted_by_label:
  "(isFruit i \<or> isSmoothieVegetable i) = (isFruit j \<or> isSmoothieVegetable j)" if "label i = label j"
  using that by (simp add: isFruit_def isSmoothieVegetable_def label_lower_def)

lemma fold_count_step_labels:
  "map label xs = map label ys \<Longrightarrow> fold count_step xs n = fold count_step ys n"
proof (induction xs arbitrary: ys n)
  case Nil
  then show ?case by simp
next
  case (Cons x xs)
  then obtain y ys' where ys: "ys = y # ys'" "label x = label y" "map label xs = map label ys'"
    by (cases ys) auto
  have "count_step x n = count_step y n"
    using counted_by_label [OF ys(2)] by (simp add: count_step_def)
  with Cons.IH [OF ys(3)] ys(1) show ?case by simp
qed

lemma detectFruits_labels:
  assumes "map label xs = map label ys"
  shows "detectFruits (Some xs) = detectFruits (Some ys)"
proof -
  have "length xs = length ys" using assms by (rule map_eq_imp_length_eq)
  with fold_count_step_labels [OF assms] show ?thesis
    by (simp add: detectFruits_def)
qed

lemma detectFruits_banana: "detectFruits (Some [banana_item])"
  by (simp add: detect_eval_defs string_eval_defs banana_item_def)

text \<open>
  Claim C8. An ingredient whose label is absent, \<open>null\<close> or the empty string is counted
  as a fruit by \<open>detectFruits\<close>, because its lower-cased label, the empty string, is
  included in every fruit name. So a non-empty list of such ingredients is fruit-based, while
  an empty list and a missing list are not.
\<close>

theorem detectFruits_unlabeled_is_fruit:
  "((label i = None \<or> label i = Some []) \<longrightarrow>
      label_lower i = [] \<and> (\<forall>fruit. str_includes fruit (label_lower i))
      \<and> isFruit i \<and> count_step i n = n + 1)
   \<and> ((ings \<noteq> [] \<and> (\<forall>j \<in> set ings. label j = None \<or> label j = Some [])) \<longrightarrow>
        detectFruits (Some ings))
   \<and> \<not> detectFruits (Some [])
   \<and> \<not> detectFruits None"
proof (intro conjI impI)
  assume a: "label i = None \<or> label i = Some []"
  then show e: "label_lower i = []"
    by (auto simp: label_lower_def toLowerCase_def)
  show "\<forall>fruit. str_includes fruit (label_lower i)"
    by (simp add: e str_includes_Nil)
  from a show f: "isFruit i" by (rule isFruit_unlabeled)
  then show "count_step i n = n + 1" by (simp add: count_step_def)
next
  assume a: "ings \<noteq> [] \<and> (\<forall>j \<in> set ings. label j = None \<or> label j = Some [])"
  then have "\<forall>j \<in> set ings. isFruit j \<or> isSmoothieVegetable j"
    using isFruit_unlabeled by blast
  with a show "detectFruits (Some ings)" by (simp add: detectFruits_all_counted)
next
  show "\<not> detectFruits (Some [])" by (simp add: detectFruits_def)
  show "\<not> detectFruits None" by (simp add: detectFruits_def)
qed

theorem detectFruits_unlabeled_is_fruit_witness:
  "label unlabeled_item = None \<and> isFruit unlabeled_item \<and> count_step unlabeled_item 0 = 1
   \<and> [unlabeled_item, empty_label_item] \<noteq> []
   \<and> label empty_label_item = Some []
   \<and> detectFruits (Some [unlabeled_item, empty_label_item])"
  using detectFruits_unlabeled_is_fruit [of unlabeled_item 0 "[unlabeled_item, empty_label_item]"]
  by (simp add: unlabeled_item_def empty_label_item_def)

text \<open>
  Claim C9. \<open>suggestMealType\<close> does not depend on its ingredients: for any two ingredient
  lists and the same hour the results agree, and the result is \<open>breakfast\<close> for the hours
  6 to 10, \<open>lunch\<close> for 11 to 15, \<open>dinner\<close> for 16 to 20 and \<open>snack\<close> otherwise.
\<close>

theorem suggestMealType_ignores_ingredients:
  "suggestMealType A hour = suggestMealType B hour
   \<and> suggestMealType A hour =
       (if 6 \<le> hour \<and> hour \<le> 10 then ''breakfast''
        else if 11 \<le> hour \<and> hour \<le> 15 then ''lunch''
        else if 16 \<le> hour \<and> hour \<le> 20 then ''dinner''
        else ''snack'')"
  by (simp add: suggestMealType_def Let_def)

theorem suggestMealType_ignores_ingredients_witness:
  "suggestMealType (Some [banana_item]) 7 = suggestMealType None 7
   \<and> suggestMealType (Some [banana_item]) 7 = ''breakfast''"
  using suggestMealType_ignores_ingredients [of "Some [banana_item]" 7 None]
  by auto

section \<open>The confirm screen\<close>

text \<open>
  Claim C1. Confirming zero ingredients is rejected: when no item of the list is confirmed,
  \<open>handleConfirm\<close> shows the error alert and does nothing else. It makes no confirm-scan
  call, does not navigate, and leaves the state of the screen as it was.
\<close>

theorem handleConfirm_nothing_confirmed:
  assumes "\<forall>it \<in> set (items st). \<not> confirmed it"
  shows "handleConfirm scanId confirmResponse st =
           (st, [Alert ''Error'' ''Please confirm at least one ingredient''])"
proof -
  from assms have "filter confirmed (items st) = []"
    by (simp add: filter_empty_conv)
  then show ?thesis
    by (simp add: handleConfirm_def)
qed

theorem handleConfirm_nothing_confirmed_witness:
  "\<not> confirmed banana_item \<and> \<not> confirmed unlabeled_item
   \<and> handleConfirm ''scan-1'' (ApiSuccess None) (initial_confirm_state\<lparr>items := [banana_item, unlabeled_item]\<rparr>)
       = (initial_confirm_state\<lparr>items := [banana_item, unlabeled_item]\<rparr>,
          [Alert ''Error'' ''Please confirm at least one ingredient''])"
proof -
  have h: "\<forall>it \<in> set (items (initial_confirm_state\<lparr>items := [banana_item, unlabeled_item]\<rparr>)). \<not> confirmed it"
    by (simp add: banana_item_def unlabeled_item_def)
  from h handleConfirm_nothing_confirmed [OF h, of "''scan-1''" "ApiSuccess None"]
  show ?thesis by simp
qed

lemma label_normalise_item: "label (normalise_item it k) = label it"
  by (simp add: normalise_item_def)

lemma map_label_itemsWithFirstConfirmed: "map label (itemsWithFirstConfirmed its) = map label its"
proof -
  have "map label (itemsWithFirstConfirmed its) = map (label \<circ> fst) (zip its [0 ..< length its])"
    by (simp add: itemsWithFirstConfirmed_def label_normalise_item split_def comp_def)
  also have "\<dots> = map label (map fst (zip its [0 ..< length its]))"
    by (simp only: map_map)
  also have "map fst (zip its [0 ..< length its]) = its"
    by (rule map_fst_zip) simp
  finally show ?thesis .
qed

text \<open>
  For a list of listed fruits, \<open>getRecipeCategories\<close> offers the smoothie and dessert
  categories.
\<close>

lemma getRecipeCategories_fruits:
  assumes "ings \<noteq> []"
    and "\<forall>i \<in> set ings. \<exists>l. label i = Some l \<and> toLowerCase l \<in> set COMMON_FRUITS"
  shows "getRecipeCategories (Some ings) =
           \<lparr> isFruitBased = True, suggestedCategories = [''smoothie'', ''dessert''],
             defaultCategory = ''smoothie'' \<rparr>"
proof -
  from assms(2) have "\<forall>i \<in> set ings. isFruit i \<or> isSmoothieVegetable i"
    using isFruit_listed by blast
  with assms(1) have "detectFruits (Some ings)" by (rule detectFruits_all_counted)
  then show ?thesis by (simp add: getRecipeCategories_def)
qed

text \<open>
  When the scan is fetched with such a list, the confirm screen shows the two recipe-type
  chips and preselects the smoothie.
\<close>

lemma loadScanResults_fetched_fruits:
  assumes "\<not> is_mock_scan_id scanId"
    and "sd_items d = Some ings" and "ings \<noteq> []"
    and "\<forall>i \<in> set ings. \<exists>l. label i = Some l \<and> toLowerCase l \<in> set COMMON_FRUITS"
    and "loadScanResults scanId detectedItems (ApiSuccess (Some d) # rest) st = Some (st', es)"
  shows "recipeTypeChips st' = [''Smoothie'', ''Dessert''] \<and> selectedRecipeType st' = ''smoothie''"
proof -
  obtain i rest' where ings: "ings = i # rest'" using assms(3) by (cases ings) auto
  from assms(4) have "\<forall>i \<in> set ings. isFruit i \<or> isSmoothieVegetable i"
    using isFruit_listed by blast
  with assms(3) have "detectFruits (Some ings)" by (rule detectFruits_all_counted)
  then have df: "detectFruits (Some (itemsWithFirstConfirmed (i # rest')))"
    using detectFruits_labels [OF map_label_itemsWithFirstConfirmed, of ings] ings by simp
  from assms(1,2,5) ings df show ?thesis
    by (auto simp: loadScanResults_body_def Let_def recipeTypeChips_def)
qed

text \<open>
  Claim C2. Given ingredients labelled as fruit, the UI offers the smoothie and dessert
  categories. On the screen this fails when the scan fetch fails and the list comes from the
  detected items passed as a backup: that branch of \<open>loadScanResults\<close> stores the items
  without running the fruit detection that the branch for a fetched list runs. For the
  single item \<open>Banana\<close>, \<open>getRecipeCategories\<close> reports a fruit-based list, and the
  screen shows the six cuisine chips, not the Smoothie and Dessert chips.
\<close>

theorem backup_items_fruits_show_cuisines:
  "loadScanResults ''scan-1'' (Some [banana_item]) [ApiFailure ''Network request failed'']
      initial_confirm_state
     = Some (initial_confirm_state
               \<lparr>items := itemsWithFirstConfirmed [banana_item], loading := False\<rparr>,
             [GetScan ''scan-1''])
   \<and> isFruitBased (getRecipeCategories (Some (itemsWithFirstConfirmed [banana_item])))
   \<and> recipeTypeChips (initial_confirm_state
                        \<lparr>items := itemsWithFirstConfirmed [banana_item], loading := False\<rparr>)
       = [''Italian'', ''Mexican'', ''Asian'', ''Indian'', ''Mediterranean'', ''American'']"
proof (intro conjI)
  show "loadScanResults ''scan-1'' (Some [banana_item]) [ApiFailure ''Network request failed'']
      initial_confirm_state
     = Some (initial_confirm_state
               \<lparr>items := itemsWithFirstConfirmed [banana_item], loading := False\<rparr>,
             [GetScan ''scan-1''])"
    by (simp add: is_mock_scan_id_def startsWith_def loadScanResults_body_def)
  have "detectFruits (Some (itemsWithFirstConfirmed [banana_item]))"
    using detectFruits_labels [OF map_label_itemsWithFirstConfirmed, of "[banana_item]"]
      detectFruits_banana by simp
  then show "isFruitBased (getRecipeCategories (Some (itemsWithFirstConfirmed [banana_item])))"
    by (simp add: getRecipeCategories_def)
  show "recipeTypeChips (initial_confirm_state
                        \<lparr>items := itemsWithFirstConfirmed [banana_item], loading := False\<rparr>)
       = [''Italian'', ''Mexican'', ''Asian'', ''Indian'', ''Mediterranean'', ''American'']"
    by (simp add: recipeTypeChips_def initial_confirm_state_def)
qed

subsection \<open>Every item of the screen has a gram amount\<close>


lemma or_num_default: "or_num a (Some v) \<noteq> None"
  by (auto simp: or_num_def truthy_num_def split: option.splits)

















section \<open>The tables\<close>

lemma first_error_None: "first_error es = None \<longleftrightarrow> (\<forall>e \<in> set es. e = None)"
proof
  assume a: "first_error es = None"
  show "\<forall>e \<in> set es. e = None"
  proof (cases "filter (\<lambda>e. e \<noteq> None) es")
    case Nil
    then show ?thesis by (simp add: filter_empty_conv)
  next
    case (Cons e es')
    then have "e \<in> set (filter (\<lambda>e. e \<noteq> None) es)" by simp
    then have "e \<noteq> None" by simp
    with a Cons show ?thesis by (simp add: first_error_def)
  qed
next
  assume "\<forall>e \<in> set es. e = None"
  then have "filter (\<lambda>e. e \<noteq> None) es = []" by (simp add: filter_empty_conv)
  then show "first_error es = None" by (simp add: first_error_def)
qed

lemma database_error_None_scans:
  "database_error db = None \<Longrightarrow> row \<in> set (scans db) \<Longrightarrow> scans_row_error row = None"
  by (auto simp: database_error_def first_error_None)


lemma scans_row_error_None:
  assumes "scans_row_error row = None"
  shows "\<exists>s \<in> set [''processing'', ''ready'', ''confirmed'', ''completed'']. sc_status row = Some s"
proof -
  from assms obtain s where s: "sc_status row = Some s"
    by (cases "sc_status row") (auto simp: scans_row_error_def split: if_splits)
  from assms have "check_passes (scans_status_check row)"
    by (auto simp: scans_row_error_def split: if_splits)
  with s have "s \<in> set [''processing'', ''ready'', ''confirmed'', ''completed'']"
    by (auto simp: check_passes_def scans_status_check_def sql_in_def split: if_splits)
  with s show ?thesis by blast
qed


lemma execute_Inr: "execute stmt db = Inr db' \<Longrightarrow> database_error db' = None"
  by (auto simp: execute_def split: option.splits)

lemma database_error_empty: "database_error empty_database = None"
  by (simp add: database_error_def first_error_def empty_database_def)

lemma database_error_fold:
  "database_error db = None \<Longrightarrow>
   database_error (fold (\<lambda>stmt db. case execute stmt db of Inl e \<Rightarrow> db | Inr db' \<Rightarrow> db') stmts db) = None"
proof (induction stmts arbitrary: db)
  case Nil
  then show ?case by simp
next
  case (Cons stmt stmts)
  have "database_error (case execute stmt db of Inl e \<Rightarrow> db | Inr db' \<Rightarrow> db') = None"
    using Cons.prems execute_Inr by (cases "execute stmt db") auto
  then show ?case using Cons.IH by simp
qed

lemma database_error_run: "database_error (run_statements stmts) = None"
  unfolding run_statements_def by (rule database_error_fold) (rule database_error_empty)

lemmas sql_eval_defs =
  execute_def database_error_def first_error_def scans_row_error_def scan_items_row_error_def
  scans_status_check_def scan_items_confirmed_requires_grams_def check_passes_def
  sql_in_def sql_or_def sql_eq_def sql_is_not_null_def with_default_def
  scans_row_of_def scan_items_row_of_def empty_database_def

text \<open>What the example statements do to the tables.\<close>

lemma execute_insert_scan_1:
  "execute insert_scan_1 empty_database =
     Inr \<lparr> scans = [\<lparr> sc_id = Some ''scan-1'', sc_user_id = Some ''user-1'',
                      sc_s3_key = Some ''images/1.jpg'', sc_status = Some ''processing'',
                      sc_created_at = Some 1000 \<rparr>],
           scan_items = [] \<rparr>"
  by (simp add: insert_scan_1_def sql_eval_defs)

lemma execute_insert_scan_bad_status:
  "execute insert_scan_bad_status empty_database = Inl CheckViolation"
  by (simp add: insert_scan_bad_status_def sql_eval_defs)

lemma execute_insert_item_confirmed:
  "execute insert_item_confirmed
     \<lparr> scans = [\<lparr> sc_id = Some ''scan-1'', sc_user_id = Some ''user-1'',
                  sc_s3_key = Some ''images/1.jpg'', sc_status = Some ''processing'',
                  sc_created_at = Some 1000 \<rparr>],
       scan_items = [] \<rparr> =
     Inr \<lparr> scans = [\<lparr> sc_id = Some ''scan-1'', sc_user_id = Some ''user-1'',
                      sc_s3_key = Some ''images/1.jpg'', sc_status = Some ''processing'',
                      sc_created_at = Some 1000 \<rparr>],
           scan_items = [\<lparr> si_id = Some ''uuid-3'', si_scan_id = Some ''scan-1'',
                           si_label = Some ''banana'', si_fdc_id = Some ''09040'',
                           si_confidence = Some (9 / 10), si_grams_est = Some 120,
                           si_grams = Some 120, si_confirmed = Some True,
                           si_created_at = Some 1002 \<rparr>] \<rparr>"
  by (simp add: insert_item_confirmed_def sql_eval_defs)

lemma execute_insert_item_confirmed_no_grams:
  "execute insert_item_confirmed_no_grams
     \<lparr> scans = [\<lparr> sc_id = Some ''scan-1'', sc_user_id = Some ''user-1'',
                  sc_s3_key = Some ''images/1.jpg'', sc_status = Some ''processing'',
                  sc_created_at = Some 1000 \<rparr>],
       scan_items = [] \<rparr> = Inl CheckViolation"
  by (simp add: insert_item_confirmed_no_grams_def sql_eval_defs)

lemma run_example_items:
  "scan_items (run_statements [insert_scan_1, insert_item_confirmed_no_grams, insert_item_confirmed]) =
     [\<lparr> si_id = Some ''uuid-3'', si_scan_id = Some ''scan-1'',
        si_label = Some ''banana'', si_fdc_id = Some ''09040'',
        si_confidence = Some (9 / 10), si_grams_est = Some 120,
        si_grams = Some 120, si_confirmed = Some True,
        si_created_at = Some 1002 \<rparr>]"
  by (simp add: run_statements_def execute_insert_scan_1 execute_insert_item_confirmed
        execute_insert_item_confirmed_no_grams)

lemma execute_update_scan_1_confirmed:
  "execute update_scan_1_confirmed
     \<lparr> scans = [\<lparr> sc_id = Some ''scan-1'', sc_user_id = Some ''user-1'',
                  sc_s3_key = Some ''images/1.jpg'', sc_status = Some ''processing'',
                  sc_created_at = Some 1000 \<rparr>],
       scan_items = [] \<rparr> =
     Inr \<lparr> scans = [\<lparr> sc_id = Some ''scan-1'', sc_user_id = Some ''user-1'',
                      sc_s3_key = Some ''images/1.jpg'', sc_status = Some ''confirmed'',
                      sc_created_at = Some 1000 \<rparr>],
           scan_items = [] \<rparr>"
  by (simp add: update_scan_1_confirmed_def sql_eval_defs)

lemma run_example_scans:
  "scans (run_statements [insert_scan_1, insert_scan_bad_status, update_scan_1_confirmed]) =
     [\<lparr> sc_id = Some ''scan-1'', sc_user_id = Some ''user-1'',
        sc_s3_key = Some ''images/1.jpg'', sc_status = Some ''confirmed'',
        sc_created_at = Some 1000 \<rparr>]"
proof -
  have "execute insert_scan_bad_status
     \<lparr> scans = [\<lparr> sc_id = Some ''scan-1'', sc_user_id = Some ''user-1'',
                  sc_s3_key = Some ''images/1.jpg'', sc_status = Some ''processing'',
                  sc_created_at = Some 1000 \<rparr>],
       scan_items = [] \<rparr> = Inl CheckViolation"
    by (simp add: insert_scan_bad_status_def sql_eval_defs)
  then show ?thesis
    by (simp add: run_statements_def execute_insert_scan_1 execute_update_scan_1_confirmed)
qed




text \<open>
  Claim C7. Scan status is an enumeration enforced by the database and mirrored by the
  client. In a database created by \<open>scripts/setup-database.sql\<close>, every row of
  \<open>scans\<close> has one of the four statuses \<open>processing\<close>, \<open>ready\<close>, \<open>confirmed\<close>
  and \<open>completed\<close>, after every statement (insert, update or delete) that succeeds and so
  after any sequence of statements; the values of the client's \<open>SCAN_STATUS\<close> are these
  four.
\<close>

theorem scans_status_enumeration:
  "map snd SCAN_STATUS = [''processing'', ''ready'', ''confirmed'', ''completed'']
   \<and> scans_status_check r = sql_in (sc_status r) (map snd SCAN_STATUS)
   \<and> (execute stmt db = Inr db' \<longrightarrow>
        (\<forall>row \<in> set (scans db'). \<exists>s \<in> set (map snd SCAN_STATUS). sc_status row = Some s))
   \<and> (\<forall>row \<in> set (scans (run_statements stmts)).
         \<exists>s \<in> set (map snd SCAN_STATUS). sc_status row = Some s)"
proof -
  have m: "map snd SCAN_STATUS = [''processing'', ''ready'', ''confirmed'', ''completed'']"
    by (simp add: SCAN_STATUS_def)
  have k: "scans_status_check r = sql_in (sc_status r) (map snd SCAN_STATUS)"
    by (simp only: m scans_status_check_def)
  have a: "\<exists>s \<in> set (map snd SCAN_STATUS). sc_status row = Some s"
    if "execute stmt db = Inr db'" and "row \<in> set (scans db')" for row
  proof -
    from that have "scans_row_error row = None"
      using execute_Inr database_error_None_scans by blast
    then show ?thesis unfolding m by (rule scans_row_error_None)
  qed
  have b: "\<exists>s \<in> set (map snd SCAN_STATUS). sc_status row = Some s"
    if "row \<in> set (scans (run_statements stmts))" for row
  proof -
    from that have "scans_row_error row = None"
      using database_error_run database_error_None_scans by blast
    then show ?thesis unfolding m by (rule scans_row_error_None)
  qed
  from m k a b show ?thesis by blast
qed

theorem scans_status_enumeration_witness:
  "execute update_scan_1_confirmed
     \<lparr> scans = [\<lparr> sc_id = Some ''scan-1'', sc_user_id = Some ''user-1'',
                  sc_s3_key = Some ''images/1.jpg'', sc_status = Some ''processing'',
                  sc_created_at = Some 1000 \<rparr>],
       scan_items = [] \<rparr> =
     Inr \<lparr> scans = [\<lparr> sc_id = Some ''scan-1'', sc_user_id = Some ''user-1'',
                      sc_s3_key = Some ''images/1.jpg'', sc_status = Some ''confirmed'',
                      sc_created_at = Some 1000 \<rparr>],
           scan_items = [] \<rparr>
   \<and> ''confirmed'' \<in> set (map snd SCAN_STATUS)
   \<and> execute insert_scan_bad_status empty_database = Inl CheckViolation
   \<and> scans (run_statements [insert_scan_1, insert_scan_bad_status, update_scan_1_confirmed]) =
       [\<lparr> sc_id = Some ''scan-1'', sc_user_id = Some ''user-1'',
          sc_s3_key = Some ''images/1.jpg'', sc_status = Some ''confirmed'',
          sc_created_at = Some 1000 \<rparr>]"
proof -
  note ex = execute_update_scan_1_confirmed
  from ex
    scans_status_enumeration [of _ update_scan_1_confirmed _ _
      "[insert_scan_1, insert_scan_bad_status, update_scan_1_confirmed]"]
  have "''confirmed'' \<in> set (map snd SCAN_STATUS)"
    by auto
  with ex execute_insert_scan_bad_status run_example_scans show ?thesis by simp
qed

section \<open>Polling for the scan results\<close>

lemma body_polls_again:
  assumes "polls_again result"
  shows "loadScanResults_body scanId detectedItems result st =
           PollAgain [GetScan scanId, SetTimeoutLoadScanResults 2000]"
  using assms
  by (auto simp: polls_again_def loadScanResults_body_def
           split: api_result.splits option.splits list.splits)

lemma body_finishes:
  assumes "\<not> polls_again result"
  shows "\<exists>st' es. loadScanResults_body scanId detectedItems result st = Finished st' es
           \<and> getScan_calls es = 1"
  using assms
  by (auto simp: polls_again_def loadScanResults_body_def getScan_calls_def Let_def
           split: api_result.splits option.splits list.splits)

lemma loadScanResults_Finished:
  "\<not> is_mock_scan_id scanId
     \<Longrightarrow> loadScanResults_body scanId detectedItems result st = Finished st' es
     \<Longrightarrow> loadScanResults scanId detectedItems (result # results) st = Some (st', es)"
  by simp

lemma loadScanResults_PollAgain:
  "\<not> is_mock_scan_id scanId
     \<Longrightarrow> loadScanResults_body scanId detectedItems result st = PollAgain es
     \<Longrightarrow> loadScanResults scanId detectedItems (result # results) st =
           (case loadScanResults scanId detectedItems results st of
              None \<Rightarrow> None
            | Some (st', es') \<Rightarrow> Some (st', es @ es'))"
  by simp

lemma loadScanResults_polls:
  assumes "\<not> is_mock_scan_id scanId" and "\<forall>r \<in> set polls. polls_again r" and "\<not> polls_again result"
  shows "\<exists>st' es. loadScanResults scanId detectedItems (polls @ result # rest) st = Some (st', es)
           \<and> getScan_calls es = length polls + 1"
  using assms(2)
proof (induction polls)
  case Nil
  from body_finishes [OF assms(3)] obtain st' es where
    "loadScanResults_body scanId detectedItems result st = Finished st' es" "getScan_calls es = 1"
    by blast
  with assms(1) show ?case by simp
next
  case (Cons r polls)
  then obtain st' es where
    ih: "loadScanResults scanId detectedItems (polls @ result # rest) st = Some (st', es)"
      "getScan_calls es = length polls + 1"
    by auto
  from Cons.prems have "polls_again r" by simp
  then have b: "loadScanResults_body scanId detectedItems r st =
      PollAgain [GetScan scanId, SetTimeoutLoadScanResults 2000]"
    by (rule body_polls_again)
  have "loadScanResults scanId detectedItems ((r # polls) @ result # rest) st =
      Some (st', [GetScan scanId, SetTimeoutLoadScanResults 2000] @ es)"
    using assms(1) b ih(1) by simp
  moreover have "getScan_calls ([GetScan scanId, SetTimeoutLoadScanResults 2000] @ es) =
      length (r # polls) + 1"
    using ih(2) by (simp add: getScan_calls_def)
  ultimately show ?case by blast
qed

lemma loadScanResults_pending:
  assumes "\<not> is_mock_scan_id scanId" and "\<forall>r \<in> set polls. polls_again r"
  shows "loadScanResults scanId detectedItems polls st = None"
  using assms(2)
proof (induction polls)
  case Nil
  with assms(1) show ?case by simp
next
  case (Cons r polls)
  then have "polls_again r" by simp
  then have "loadScanResults_body scanId detectedItems r st =
      PollAgain [GetScan scanId, SetTimeoutLoadScanResults 2000]"
    by (rule body_polls_again)
  with Cons assms(1) show ?case by simp
qed

section \<open>Recipe generation\<close>

lemma is_CreateRecipe_failure_alert: "\<not> is_CreateRecipe (failure_alert message)"
  by (simp add: failure_alert_def Let_def)

lemma fetch_cases:
  obtains st2 where "fetch_recipe_details typeErrorMsg recipeResponse st = (st2, None)"
  | st2 m where "fetch_recipe_details typeErrorMsg recipeResponse st = (st2, Some m)"
  by (cases "fetch_recipe_details typeErrorMsg recipeResponse st") (metis option.exhaust prod.collapse fst_conv snd_conv)+

lemma generateRecipe_try_one_create:
  "createRecipe_calls (fst (snd (generateRecipe_try typeErrorMsg scanId numServings createResponse
      recipeResponse st))) = 1"
proof (cases createResponse)
  case TimedOut
  then show ?thesis by (simp add: generateRecipe_try_def createRecipe_calls_def)
next
  case (Resolved r)
  show ?thesis
  proof (cases r)
    case (ApiFailure e)
    with Resolved show ?thesis by (simp add: generateRecipe_try_def createRecipe_calls_def)
  next
    case (ApiThrows m)
    with Resolved show ?thesis by (simp add: generateRecipe_try_def createRecipe_calls_def)
  next
    case (ApiSuccess x)
    show ?thesis
    proof (cases x)
      case None
      with Resolved ApiSuccess show ?thesis
        by (simp add: generateRecipe_try_def createRecipe_calls_def)
    next
      case (Some d)
      show ?thesis
      proof (cases "recipe_ids d \<noteq> None")
        case True
        show ?thesis
        proof (cases "recipes d")
          case None
          with Resolved ApiSuccess Some True show ?thesis
            by (simp add: generateRecipe_try_def createRecipe_calls_def)
        next
          case (Some recipeOptions)
          note opts = Some
          show ?thesis
          proof (cases "\<exists>r. recipeOptions = [r]")
            case False
            then have "(case recipeOptions of [] \<Rightarrow> a | [r] \<Rightarrow> b r | r # r' # rs \<Rightarrow> a) = a" for a :: "recipe_state \<times> recipe_effect list \<times> string option" and b
              by (cases recipeOptions rule: list.exhaust) (auto split: list.splits)
            with Resolved ApiSuccess \<open>x = Some d\<close> True opts show ?thesis
              by (simp add: generateRecipe_try_def createRecipe_calls_def Let_def split: list.splits)
          next
            case True
            then obtain r where r: "recipeOptions = [r]" by blast
            show ?thesis
            proof (cases "test_mode d \<or> rj_ai_generated r \<noteq> None")
              case True
              with Resolved ApiSuccess \<open>x = Some d\<close> \<open>recipe_ids d \<noteq> None\<close> opts r show ?thesis
                by (simp add: generateRecipe_try_def createRecipe_calls_def Let_def)
            next
              case False
              show ?thesis
                by (rule fetch_cases [of typeErrorMsg recipeResponse "st\<lparr>rs_recipeOptions := Some recipeOptions\<rparr>"])
                  (use Resolved ApiSuccess \<open>x = Some d\<close> \<open>recipe_ids d \<noteq> None\<close> opts r False in
                    \<open>simp_all add: generateRecipe_try_def createRecipe_calls_def Let_def\<close>)
            qed
          qed
        qed
      next
        case False
        show ?thesis
        proof (cases "or_str (recipe_id d) [] \<noteq> []")
          case True
          show ?thesis
            by (rule fetch_cases [of typeErrorMsg recipeResponse st])
              (use Resolved ApiSuccess Some False True in
                \<open>simp_all add: generateRecipe_try_def createRecipe_calls_def Let_def\<close>)
        next
          case nf: False
          with Resolved ApiSuccess Some False show ?thesis
            by (simp add: generateRecipe_try_def createRecipe_calls_def)
        qed
      qed
    qed
  qed
qed

lemma generateRecipe_one_create:
  "createRecipe_calls (snd (generateRecipe typeErrorMsg scanId numServings createResponse
      recipeResponse st)) = 1"
proof -
  obtain st' es thrown where t: "generateRecipe_try typeErrorMsg scanId numServings createResponse
      recipeResponse st = (st', es, thrown)"
    by (cases "generateRecipe_try typeErrorMsg scanId numServings createResponse recipeResponse st")
      auto
  with generateRecipe_try_one_create [of typeErrorMsg scanId numServings createResponse recipeResponse st]
  have "createRecipe_calls es = 1" by simp
  with t show ?thesis
    by (cases thrown)
      (simp_all add: generateRecipe_def createRecipe_calls_def is_CreateRecipe_failure_alert)
qed

lemma alert_buttons_failure_alert:
  "alert_buttons (failure_alert message) = failure_buttons ''Retry''
   \<or> alert_buttons (failure_alert message) = failure_buttons ''Try Again''"
  by (simp add: failure_alert_def Let_def)

lemma failure_alert_offers:
  "(''Use Mock Recipe'', PressGenerateMockRecipe) \<in> set (alert_buttons (failure_alert message))
   \<and> PressGenerateRecipe \<in> snd ` set (alert_buttons (failure_alert message))"
  using alert_buttons_failure_alert [of message]
  by (auto simp: failure_buttons_def)

lemma generateRecipe_thrown:
  assumes "generateRecipe_try typeErrorMsg scanId numServings createResponse recipeResponse st =
             (st', es, Some message)"
  shows "generateRecipe typeErrorMsg scanId numServings createResponse recipeResponse st =
           (st'\<lparr>rs_loading := False\<rparr>, es @ [failure_alert message])"
  using assms by (simp add: generateRecipe_def)

lemma generateRecipe_try_create_failed:
  assumes "createResponse = TimedOut \<or> (\<exists>e. createResponse = Resolved (ApiFailure e))"
  shows "\<exists>message. generateRecipe_try typeErrorMsg scanId numServings createResponse recipeResponse st =
           (st, [CreateRecipe
                   \<lparr> cr_scan_id = scanId, cr_servings = numServings,
                     cr_cuisine = (if rs_isFruitDetected st then ''healthy'' else rs_selectedCuisine st),
                     cr_skill_level = rs_selectedSkillLevel st,
                     cr_dietary_restrictions = rs_dietaryRestrictions st,
                     cr_meal_type = rs_selectedMealType st,
                     cr_recipe_category = rs_selectedRecipeCategory st,
                     cr_test_mode = False \<rparr>], Some message)"
  using assms by (auto simp: generateRecipe_try_def)

lemma generateMockRecipe_sets_recipe:
  "\<exists>mock. rs_recipe (generateMockRecipe confirmedItems numServings st) = Some (MockRecipe mock)
     \<and> mr_title mock =
         ''Mock '' @ capitalize (if rs_isFruitDetected st then rs_selectedRecipeCategory st
                                 else rs_selectedCuisine st) @ '' Recipe''"
  by (simp add: generateMockRecipe_def Let_def)

section \<open>The pipeline\<close>

text \<open>
  A mount of the confirm screen whose first fetch finds the scan still processing and whose
  second fetch finds the banana: the function ran twice, the second time from its own timer.
\<close>

lemma loadScanResults_two_fetches:
  "loadScanResults ''scan-1'' None [still_processing, fetched_banana] initial_confirm_state =
     Some (initial_confirm_state
             \<lparr> items := itemsWithFirstConfirmed [banana_item], isFruitDetected := True,
               selectedRecipeType := ''smoothie'', loading := False \<rparr>,
           [GetScan ''scan-1'', SetTimeoutLoadScanResults 2000, GetScan ''scan-1''])"
proof -
  have df: "detectFruits (Some (itemsWithFirstConfirmed [banana_item]))"
    using detectFruits_labels [OF map_label_itemsWithFirstConfirmed, of "[banana_item]"]
      detectFruits_banana by simp
  have "polls_again still_processing"
    by (simp add: polls_again_def still_processing_def)
  then have b1: "loadScanResults_body ''scan-1'' None still_processing initial_confirm_state =
      PollAgain [GetScan ''scan-1'', SetTimeoutLoadScanResults 2000]"
    by (rule body_polls_again)
  have b2: "loadScanResults_body ''scan-1'' None fetched_banana initial_confirm_state =
      Finished (initial_confirm_state
             \<lparr> items := itemsWithFirstConfirmed [banana_item], isFruitDetected := True,
               selectedRecipeType := ''smoothie'', loading := False \<rparr>) [GetScan ''scan-1'']"
    using df by (simp add: loadScanResults_body_def fetched_banana_def)
  have m: "\<not> is_mock_scan_id ''scan-1''"
    by (simp add: is_mock_scan_id_def startsWith_def)
  show ?thesis
    by (simp only: loadScanResults_PollAgain [OF m b1] loadScanResults_Finished [OF m b2]
          option.case prod.case append_Cons append_Nil)
qed

text \<open>
  Claim C4, as stated, fails: the control flow of the client is said to have no feedback
  loops, each stage running at most once per user action, but one mount of the confirm
  screen fetches the scan results twice when the first response says \<open>processing\<close>.
\<close>

theorem fetch_runs_twice_counterexample:
  "loadScanResults ''scan-1'' None [still_processing, fetched_banana] initial_confirm_state =
     Some (initial_confirm_state
             \<lparr> items := itemsWithFirstConfirmed [banana_item], isFruitDetected := True,
               selectedRecipeType := ''smoothie'', loading := False \<rparr>,
           [GetScan ''scan-1'', SetTimeoutLoadScanResults 2000, GetScan ''scan-1''])
   \<and> \<not> getScan_calls [GetScan ''scan-1'', SetTimeoutLoadScanResults 2000, GetScan ''scan-1''] \<le> 1"
  using loadScanResults_two_fetches
  by (simp add: getScan_calls_def del: loadScanResults.simps)

text \<open>
  Claim C4, amended. The pipeline is linear except for polling and for retries the user
  asks for. \<open>loadScanResults\<close> runs again from its timer for as long as the fetch succeeds
  without items and with status \<open>processing\<close>: against \<open>k\<close> such responses followed by
  any other response, one mount makes \<open>k + 1\<close> \<open>getScan\<close> calls and then finishes, and
  against such responses alone it does not finish. Every run of \<open>generateRecipe\<close> makes
  exactly one \<open>createRecipe\<close> call and does not start another run; the alert it raises
  when it fails has a Retry / Try Again button, bound to \<open>generateRecipe\<close>, for the user
  to start one.
\<close>

theorem pipeline_polls_and_retries:
  "((\<not> is_mock_scan_id scanId \<and> (\<forall>r \<in> set polls. polls_again r) \<and> \<not> polls_again result) \<longrightarrow>
      (\<exists>st' es. loadScanResults scanId detectedItems (polls @ result # rest) st = Some (st', es)
         \<and> getScan_calls es = length polls + 1))
   \<and> ((\<not> is_mock_scan_id scanId \<and> (\<forall>r \<in> set polls. polls_again r)) \<longrightarrow>
        loadScanResults scanId detectedItems polls st = None)
   \<and> createRecipe_calls (snd (generateRecipe typeErrorMsg scanId numServings createResponse
        recipeResponse rst)) = 1
   \<and> (generateRecipe_try typeErrorMsg scanId numServings createResponse recipeResponse rst =
         (rst', res, Some message) \<longrightarrow>
       generateRecipe typeErrorMsg scanId numServings createResponse recipeResponse rst =
         (rst'\<lparr>rs_loading := False\<rparr>, res @ [failure_alert message])
       \<and> PressGenerateRecipe \<in> snd ` set (alert_buttons (failure_alert message)))"
  using loadScanResults_polls [of scanId polls result detectedItems rest st]
    loadScanResults_pending [of scanId polls detectedItems st]
    generateRecipe_one_create [of typeErrorMsg scanId numServings createResponse recipeResponse rst]
    generateRecipe_thrown [of typeErrorMsg scanId numServings createResponse recipeResponse rst rst' res message]
    failure_alert_offers [of message]
  by blast

theorem pipeline_polls_and_retries_witness:
  "\<not> is_mock_scan_id ''scan-1'' \<and> polls_again still_processing \<and> \<not> polls_again fetched_banana
   \<and> loadScanResults ''scan-1'' None [still_processing, still_processing] initial_confirm_state = None
   \<and> createRecipe_calls (snd (generateRecipe ''TypeError'' ''scan-1'' 2 TimedOut (ApiSuccess None)
        example_recipe_state)) = 1
   \<and> generateRecipe ''TypeError'' ''scan-1'' 2 TimedOut (ApiSuccess None) example_recipe_state =
       (example_recipe_state\<lparr>rs_loading := False\<rparr>,
        [CreateRecipe
           \<lparr> cr_scan_id = ''scan-1'', cr_servings = 2, cr_cuisine = ''italian'',
             cr_skill_level = ''intermediate'', cr_dietary_restrictions = [],
             cr_meal_type = ''lunch'', cr_recipe_category = ''italian'', cr_test_mode = False \<rparr>]
        @ [failure_alert ''Request timeout after 15 seconds''])
   \<and> PressGenerateRecipe \<in> snd ` set (alert_buttons (failure_alert ''Request timeout after 15 seconds''))"
proof -
  have m: "\<not> is_mock_scan_id ''scan-1''"
    by (simp add: is_mock_scan_id_def startsWith_def)
  have p: "polls_again still_processing"
    by (simp add: polls_again_def still_processing_def)
  have q: "\<not> polls_again fetched_banana"
    by (simp add: polls_again_def fetched_banana_def)
  have ps: "\<forall>r \<in> set [still_processing, still_processing]. polls_again r"
    using p by simp
  have t: "generateRecipe_try ''TypeError'' ''scan-1'' 2 TimedOut (ApiSuccess None) example_recipe_state =
      (example_recipe_state,
       [CreateRecipe
           \<lparr> cr_scan_id = ''scan-1'', cr_servings = 2, cr_cuisine = ''italian'',
             cr_skill_level = ''intermediate'', cr_dietary_restrictions = [],
             cr_meal_type = ''lunch'', cr_recipe_category = ''italian'', cr_test_mode = False \<rparr>],
       Some ''Request timeout after 15 seconds'')"
    by (simp add: generateRecipe_try_def example_recipe_state_def)
  from m p q ps t
    pipeline_polls_and_retries [of "''scan-1''" "[still_processing, still_processing]"
      fetched_banana None "[]" initial_confirm_state "''TypeError''" 2 TimedOut "ApiSuccess None"
      example_recipe_state example_recipe_state
      "[CreateRecipe
           \<lparr> cr_scan_id = ''scan-1'', cr_servings = 2, cr_cuisine = ''italian'',
             cr_skill_level = ''intermediate'', cr_dietary_restrictions = [],
             cr_meal_type = ''lunch'', cr_recipe_category = ''italian'', cr_test_mode = False \<rparr>]"
      "''Request timeout after 15 seconds''"]
  show ?thesis by (simp add: createRecipe_calls_def is_CreateRecipe_failure_alert)
qed

section \<open>Fallbacks\<close>

lemma loadScanResults_fetch_failed:
  assumes "\<not> is_mock_scan_id scanId"
    and "result = ApiSuccess None \<or> (\<exists>e. result = ApiFailure e)"
    and "detectedItems = None \<or> detectedItems = Some []"
  shows "\<exists>message. loadScanResults scanId detectedItems (result # rest) st =
           Some (st\<lparr>items := [placeholder_item ''unknown food item''], loading := False\<rparr>,
                 [GetScan scanId, Alert ''Detection Failed'' message])"
  using assms by (auto simp: loadScanResults_body_def Let_def)

lemma loadScanResults_fetched_nothing:
  assumes "\<not> is_mock_scan_id scanId"
    and "sd_items d = None \<or> sd_items d = Some []"
    and "sd_status d \<noteq> Some ''processing''"
  shows "loadScanResults scanId detectedItems (ApiSuccess (Some d) # rest) st =
           Some (st\<lparr>items := [placeholder_item ''unknown food item''], loading := False\<rparr>,
                 [GetScan scanId])"
  using assms by (auto simp: loadScanResults_body_def)

lemma loadScanResults_threw:
  assumes "\<not> is_mock_scan_id scanId"
  shows "loadScanResults scanId detectedItems (ApiThrows msg # rest) st =
           Some (st\<lparr>items := [], loading := False\<rparr>,
                 [GetScan scanId, Alert ''Error'' (''Failed to load scan results: '' @ msg)])"
  using assms by (simp add: loadScanResults_body_def)

text \<open>
  Claim C5, as stated, fails: a fetch that returns neither items nor detected items is said
  to end with the placeholder item and an alert, but when the fetch itself succeeds, with an
  empty list and the status \<open>ready\<close>, the placeholder is put in place without any alert.
\<close>

theorem silent_placeholder_counterexample:
  "loadScanResults ''scan-1'' None [ready_without_items] initial_confirm_state =
     Some (initial_confirm_state
             \<lparr>items := [placeholder_item ''unknown food item''], loading := False\<rparr>,
           [GetScan ''scan-1''])
   \<and> alerts [GetScan ''scan-1''] = []"
proof -
  have m: "\<not> is_mock_scan_id ''scan-1''"
    by (simp add: is_mock_scan_id_def startsWith_def)
  have "loadScanResults ''scan-1'' None
          (ApiSuccess (Some \<lparr> sd_items = Some [], sd_status = Some ''ready'' \<rparr>) # [])
          initial_confirm_state =
     Some (initial_confirm_state
             \<lparr>items := [placeholder_item ''unknown food item''], loading := False\<rparr>,
           [GetScan ''scan-1''])"
    by (rule loadScanResults_fetched_nothing [OF m]) simp_all
  then show ?thesis
    by (simp add: ready_without_items_def alerts_def List.map_filter_def
          del: loadScanResults.simps)
qed

text \<open>
  Claim C5, amended. When the scan fetch fails (no success, or no body) and no detected
  items were passed, \<open>loadScanResults\<close> puts the placeholder item in place (label
  \<open>unknown food item\<close>, confidence 0.5, \<open>grams_est\<close> 100, confirmed) and shows the
  \<open>Detection Failed\<close> alert. When the fetch succeeds without items and the status is not
  \<open>processing\<close>, it puts the same placeholder in place without an alert; when the fetch
  throws, it shows an \<open>Error\<close> alert and leaves the list empty. Whenever
  \<open>generateRecipe\<close> fails, as it does on a timeout and on a failed \<open>createRecipe\<close>
  call, the alert it raises has the button \<open>Use Mock Recipe\<close>, bound to
  \<open>generateMockRecipe\<close>, which shows the template recipe.
\<close>

theorem fallback_to_placeholder_and_mock:
  "((\<not> is_mock_scan_id scanId
       \<and> (result = ApiSuccess None \<or> (\<exists>e. result = ApiFailure e))
       \<and> (detectedItems = None \<or> detectedItems = Some [])) \<longrightarrow>
      (\<exists>message. loadScanResults scanId detectedItems (result # rest) st =
           Some (st\<lparr>items := [placeholder_item ''unknown food item''], loading := False\<rparr>,
                 [GetScan scanId, Alert ''Detection Failed'' message])))
   \<and> ((\<not> is_mock_scan_id scanId
         \<and> (sd_items d = None \<or> sd_items d = Some [])
         \<and> sd_status d \<noteq> Some ''processing'') \<longrightarrow>
        loadScanResults scanId detectedItems (ApiSuccess (Some d) # rest) st =
           Some (st\<lparr>items := [placeholder_item ''unknown food item''], loading := False\<rparr>,
                 [GetScan scanId]))
   \<and> (\<not> is_mock_scan_id scanId \<longrightarrow>
        loadScanResults scanId detectedItems (ApiThrows msg # rest) st =
           Some (st\<lparr>items := [], loading := False\<rparr>,
                 [GetScan scanId, Alert ''Error'' (''Failed to load scan results: '' @ msg)]))
   \<and> placeholder_item ''unknown food item'' =
        \<lparr> label = Some ''unknown food item'', fdc_id = Some [], confidence = Some (1 / 2),
          grams_est = Some 100, grams = None, confirmed = True, manually_added = None \<rparr>
   \<and> (generateRecipe_try typeErrorMsg rscanId numServings createResponse recipeResponse rst =
         (rst', res, Some message) \<longrightarrow>
       generateRecipe typeErrorMsg rscanId numServings createResponse recipeResponse rst =
         (rst'\<lparr>rs_loading := False\<rparr>, res @ [failure_alert message])
       \<and> (''Use Mock Recipe'', PressGenerateMockRecipe) \<in> set (alert_buttons (failure_alert message)))
   \<and> ((createResponse = TimedOut \<or> (\<exists>e. createResponse = Resolved (ApiFailure e))) \<longrightarrow>
        (\<exists>es message. generateRecipe_try typeErrorMsg rscanId numServings createResponse
            recipeResponse rst = (rst, es, Some message)))
   \<and> (\<exists>mock. rs_recipe (generateMockRecipe confirmedItems numServings rst) = Some (MockRecipe mock))"
proof -
  have c1: "(\<not> is_mock_scan_id scanId
       \<and> (result = ApiSuccess None \<or> (\<exists>e. result = ApiFailure e))
       \<and> (detectedItems = None \<or> detectedItems = Some [])) \<longrightarrow>
      (\<exists>message. loadScanResults scanId detectedItems (result # rest) st =
           Some (st\<lparr>items := [placeholder_item ''unknown food item''], loading := False\<rparr>,
                 [GetScan scanId, Alert ''Detection Failed'' message]))"
    using loadScanResults_fetch_failed [of scanId result detectedItems rest st] by fast
  have c2: "(\<not> is_mock_scan_id scanId
         \<and> (sd_items d = None \<or> sd_items d = Some [])
         \<and> sd_status d \<noteq> Some ''processing'') \<longrightarrow>
        loadScanResults scanId detectedItems (ApiSuccess (Some d) # rest) st =
           Some (st\<lparr>items := [placeholder_item ''unknown food item''], loading := False\<rparr>,
                 [GetScan scanId])"
    using loadScanResults_fetched_nothing [of scanId d detectedItems rest st] by fast
  have c3: "\<not> is_mock_scan_id scanId \<longrightarrow>
        loadScanResults scanId detectedItems (ApiThrows msg # rest) st =
           Some (st\<lparr>items := [], loading := False\<rparr>,
                 [GetScan scanId, Alert ''Error'' (''Failed to load scan results: '' @ msg)])"
    using loadScanResults_threw [of scanId detectedItems msg rest st] by fast
  have c4: "placeholder_item ''unknown food item'' =
        \<lparr> label = Some ''unknown food item'', fdc_id = Some [], confidence = Some (1 / 2),
          grams_est = Some 100, grams = None, confirmed = True, manually_added = None \<rparr>"
    by (simp add: placeholder_item_def)
  have c5: "generateRecipe_try typeErrorMsg rscanId numServings createResponse recipeResponse rst =
         (rst', res, Some message) \<longrightarrow>
       generateRecipe typeErrorMsg rscanId numServings createResponse recipeResponse rst =
         (rst'\<lparr>rs_loading := False\<rparr>, res @ [failure_alert message])
       \<and> (''Use Mock Recipe'', PressGenerateMockRecipe) \<in> set (alert_buttons (failure_alert message))"
    using generateRecipe_thrown [of typeErrorMsg rscanId numServings createResponse recipeResponse
        rst rst' res message]
      failure_alert_offers [of message] by fast
  have c6: "(createResponse = TimedOut \<or> (\<exists>e. createResponse = Resolved (ApiFailure e))) \<longrightarrow>
        (\<exists>es message. generateRecipe_try typeErrorMsg rscanId numServings createResponse
            recipeResponse rst = (rst, es, Some message))"
    using generateRecipe_try_create_failed [of createResponse typeErrorMsg rscanId numServings
        recipeResponse rst] by fast
  have c7: "\<exists>mock. rs_recipe (generateMockRecipe confirmedItems numServings rst) = Some (MockRecipe mock)"
    using generateMockRecipe_sets_recipe [of confirmedItems numServings rst] by fast
  show ?thesis
    by (intro conjI c1 c2 c3 c4 c5 c6 c7)
qed

theorem fallback_to_placeholder_and_mock_witness:
  "\<not> is_mock_scan_id ''scan-1''
   \<and> loadScanResults ''scan-1'' None [ApiFailure ''Network request failed''] initial_confirm_state =
       Some (initial_confirm_state
               \<lparr>items := [placeholder_item ''unknown food item''], loading := False\<rparr>,
             [GetScan ''scan-1'',
              Alert ''Detection Failed''
                (''Real AI detection failed: Network request failed'' @ [CHR 0x0A, CHR 0x0A]
                   @ ''Using fallback detection for now.'')])
   \<and> loadScanResults ''scan-1'' None [ready_without_items] initial_confirm_state =
       Some (initial_confirm_state
               \<lparr>items := [placeholder_item ''unknown food item''], loading := False\<rparr>,
             [GetScan ''scan-1''])
   \<and> generateRecipe ''TypeError'' ''scan-1'' 2 TimedOut (ApiSuccess None) example_recipe_state =
       (example_recipe_state\<lparr>rs_loading := False\<rparr>,
        [CreateRecipe
           \<lparr> cr_scan_id = ''scan-1'', cr_servings = 2, cr_cuisine = ''italian'',
             cr_skill_level = ''intermediate'', cr_dietary_restrictions = [],
             cr_meal_type = ''lunch'', cr_recipe_category = ''italian'', cr_test_mode = False \<rparr>]
        @ [failure_alert ''Request timeout after 15 seconds''])
   \<and> (''Use Mock Recipe'', PressGenerateMockRecipe)
        \<in> set (alert_buttons (failure_alert ''Request timeout after 15 seconds''))"
proof -
  have m: "\<not> is_mock_scan_id ''scan-1''"
    by (simp add: is_mock_scan_id_def startsWith_def)
  have f: "loadScanResults ''scan-1'' None [ApiFailure ''Network request failed''] initial_confirm_state =
       Some (initial_confirm_state
               \<lparr>items := [placeholder_item ''unknown food item''], loading := False\<rparr>,
             [GetScan ''scan-1'',
              Alert ''Detection Failed''
                (''Real AI detection failed: Network request failed'' @ [CHR 0x0A, CHR 0x0A]
                   @ ''Using fallback detection for now.'')])"
    using m by (simp add: loadScanResults_body_def or_str_def)
  have t: "generateRecipe_try ''TypeError'' ''scan-1'' 2 TimedOut (ApiSuccess None) example_recipe_state =
      (example_recipe_state,
       [CreateRecipe
           \<lparr> cr_scan_id = ''scan-1'', cr_servings = 2, cr_cuisine = ''italian'',
             cr_skill_level = ''intermediate'', cr_dietary_restrictions = [],
             cr_meal_type = ''lunch'', cr_recipe_category = ''italian'', cr_test_mode = False \<rparr>],
       Some ''Request timeout after 15 seconds'')"
    by (simp add: generateRecipe_try_def example_recipe_state_def)
  note inst =
    fallback_to_placeholder_and_mock [of "''scan-1''" "ApiFailure ''Network request failed''" None
      "[]" initial_confirm_state "\<lparr> sd_items = Some [], sd_status = Some ''ready'' \<rparr>" "[]"
      "''TypeError''" "''scan-1''" 2 TimedOut "ApiSuccess None" example_recipe_state
      example_recipe_state
      "[CreateRecipe
           \<lparr> cr_scan_id = ''scan-1'', cr_servings = 2, cr_cuisine = ''italian'',
             cr_skill_level = ''intermediate'', cr_dietary_restrictions = [],
             cr_meal_type = ''lunch'', cr_recipe_category = ''italian'', cr_test_mode = False \<rparr>]"
      "''Request timeout after 15 seconds''" None]
  have w3: "loadScanResults ''scan-1'' None
          [ApiSuccess (Some \<lparr> sd_items = Some [], sd_status = Some ''ready'' \<rparr>)]
          initial_confirm_state =
       Some (initial_confirm_state
               \<lparr>items := [placeholder_item ''unknown food item''], loading := False\<rparr>,
             [GetScan ''scan-1''])"
    by (rule inst [THEN conjunct2, THEN conjunct1, THEN mp]) (simp add: m)
  have w4: "generateRecipe ''TypeError'' ''scan-1'' 2 TimedOut (ApiSuccess None) example_recipe_state =
       (example_recipe_state\<lparr>rs_loading := False\<rparr>,
        [CreateRecipe
           \<lparr> cr_scan_id = ''scan-1'', cr_servings = 2, cr_cuisine = ''italian'',
             cr_skill_level = ''intermediate'', cr_dietary_restrictions = [],
             cr_meal_type = ''lunch'', cr_recipe_category = ''italian'', cr_test_mode = False \<rparr>]
        @ [failure_alert ''Request timeout after 15 seconds''])
     \<and> (''Use Mock Recipe'', PressGenerateMockRecipe)
        \<in> set (alert_buttons (failure_alert ''Request timeout after 15 seconds''))"
    by (rule inst [THEN conjunct2, THEN conjunct2, THEN conjunct2, THEN conjunct2, THEN conjunct1,
          THEN mp]) (rule t)
  show ?thesis
    unfolding ready_without_items_def
    by (intro conjI m f w3 w4 [THEN conjunct1] w4 [THEN conjunct2])
qed

section \<open>The fallback recipe generator\<close>










lemma generateMultipleMockRecipes_banana:
  "generateMultipleMockRecipes [banana_item] 2 () =
     Inr [generateFreshRecipe [banana_item] 2,
          generateCookedRecipe [banana_item] 2,
          generateBakedRecipe [banana_item] 2]"
  by (simp add: generateMultipleMockRecipes_def banana_item_def string_eval_defs)


section \<open>Authentication\<close>

declare decimal.simps [simp del]

lemma decimal_401: "decimal 401 = ''401''"
  by (simp add: decimal.simps)

lemma bearer_token_api_request:
  "bearer_token (api_request token operation requestBody) =
     (case token of None \<Rightarrow> None | Some t \<Rightarrow> if t = [] then None else Some t)"
  by (simp add: bearer_token_def api_request_def authorization_header_def startsWith_def
           split: option.splits)

lemma authenticated_api_request:
  "authenticated valid (api_request token operation requestBody)
     \<longleftrightarrow> (\<exists>t. token = Some t \<and> t \<noteq> [] \<and> valid t)"
  by (auto simp: authenticated_def bearer_token_api_request split: option.splits if_splits)

lemma api_gateway_rejects:
  "\<not> authenticated valid request \<Longrightarrow>
   api_gateway valid backend request srv = (\<lparr> status = 401, body = ''INVALID_TOKEN'' \<rparr>, srv)"
  by (simp add: api_gateway_def)

lemma apiCall_result_401:
  "apiCall_result parse \<lparr> status = 401, body = ''INVALID_TOKEN'' \<rparr> =
     ApiFailure ''HTTP error! status: 401, body: INVALID_TOKEN''"
  by (simp add: apiCall_result_def decimal_401)

text \<open>
  Claim C6. Every endpoint of the REST surface (presign upload, start scan, get scan,
  confirm scan, create recipe, get recipe, log meal) requires bearer-token authentication.
  A request without a valid bearer token is answered with status 401 and the function
  behind the endpoint is not run: the state of the server is unchanged. For the client this
  means that a call made without a token, or with a token that is not valid, resolves to a
  failure for every operation of \<open>ApiService\<close>.
\<close>

theorem unauthenticated_request_rejected:
  "(\<not> authenticated valid request \<longrightarrow>
      api_gateway valid backend request srv = (\<lparr> status = 401, body = ''INVALID_TOKEN'' \<rparr>, srv))
   \<and> (authenticated valid request \<longrightarrow>
        (\<exists>t. hr_authorization request = Some (''Bearer '' @ t) \<and> valid t))
   \<and> ((token = None \<or> token = Some [] \<or> (\<exists>t. token = Some t \<and> \<not> valid t)) \<longrightarrow>
        api_gateway valid backend (api_request token operation requestBody) srv =
          (\<lparr> status = 401, body = ''INVALID_TOKEN'' \<rparr>, srv)
        \<and> apiCall_result parse
            (fst (api_gateway valid backend (api_request token operation requestBody) srv)) =
          ApiFailure ''HTTP error! status: 401, body: INVALID_TOKEN'')"
proof -
  have c1: "\<not> authenticated valid request \<longrightarrow>
      api_gateway valid backend request srv = (\<lparr> status = 401, body = ''INVALID_TOKEN'' \<rparr>, srv)"
    by (simp add: api_gateway_rejects)
  have c2: "authenticated valid request \<longrightarrow>
        (\<exists>t. hr_authorization request = Some (''Bearer '' @ t) \<and> valid t)"
  proof
    assume a: "authenticated valid request"
    then obtain t where t: "bearer_token request = Some t" "valid t"
      by (auto simp: authenticated_def split: option.splits)
    then obtain h where h: "hr_authorization request = Some h" "prefix ''Bearer '' h" "t = drop 7 h"
      by (auto simp: bearer_token_def startsWith_def split: option.splits if_splits)
    from h(2) obtain rest where "h = ''Bearer '' @ rest" by (auto simp: prefix_def)
    with h t show "\<exists>t. hr_authorization request = Some (''Bearer '' @ t) \<and> valid t"
      by auto
  qed
  have c3: "(token = None \<or> token = Some [] \<or> (\<exists>t. token = Some t \<and> \<not> valid t)) \<longrightarrow>
        api_gateway valid backend (api_request token operation requestBody) srv =
          (\<lparr> status = 401, body = ''INVALID_TOKEN'' \<rparr>, srv)
        \<and> apiCall_result parse
            (fst (api_gateway valid backend (api_request token operation requestBody) srv)) =
          ApiFailure ''HTTP error! status: 401, body: INVALID_TOKEN''"
  proof
    assume "token = None \<or> token = Some [] \<or> (\<exists>t. token = Some t \<and> \<not> valid t)"
    then have "\<not> authenticated valid (api_request token operation requestBody)"
      by (auto simp: authenticated_api_request)
    then have "api_gateway valid backend (api_request token operation requestBody) srv =
          (\<lparr> status = 401, body = ''INVALID_TOKEN'' \<rparr>, srv)"
      by (rule api_gateway_rejects)
    then show "api_gateway valid backend (api_request token operation requestBody) srv =
          (\<lparr> status = 401, body = ''INVALID_TOKEN'' \<rparr>, srv)
        \<and> apiCall_result parse
            (fst (api_gateway valid backend (api_request token operation requestBody) srv)) =
          ApiFailure ''HTTP error! status: 401, body: INVALID_TOKEN''"
      by (simp add: apiCall_result_401)
  qed
  show ?thesis by (intro conjI c1 c2 c3)
qed

theorem unauthenticated_request_rejected_witness:
  "api_gateway (\<lambda>t. t = ''token-1'') (\<lambda>request n. (\<lparr> status = 200, body = ''{}'' \<rparr>, Suc n))
     (api_request None (ConfirmScanItems ''scan-1'') (Some ''{}'')) (0 :: nat) =
     (\<lparr> status = 401, body = ''INVALID_TOKEN'' \<rparr>, 0)
   \<and> apiCall_result (\<lambda>b. Some b)
        (fst (api_gateway (\<lambda>t. t = ''token-1'') (\<lambda>request n. (\<lparr> status = 200, body = ''{}'' \<rparr>, Suc n))
               (api_request None (ConfirmScanItems ''scan-1'') (Some ''{}'')) (0 :: nat))) =
       ApiFailure ''HTTP error! status: 401, body: INVALID_TOKEN''
   \<and> api_gateway (\<lambda>t. t = ''token-1'') (\<lambda>request n. (\<lparr> status = 200, body = ''{}'' \<rparr>, Suc n))
       (api_request (Some ''token-1'') (ConfirmScanItems ''scan-1'') (Some ''{}'')) (0 :: nat) =
       (\<lparr> status = 200, body = ''{}'' \<rparr>, 1)"
proof -
  note inst =
    unauthenticated_request_rejected [of "\<lambda>t. t = ''token-1''"
      "api_request None (ConfirmScanItems ''scan-1'') (Some ''{}'')"
      "\<lambda>request n. (\<lparr> status = 200, body = ''{}'' \<rparr>, Suc n)" "0 :: nat"
      None "ConfirmScanItems ''scan-1''" "Some ''{}''" "\<lambda>b. Some b"]
  have w: "api_gateway (\<lambda>t. t = ''token-1'') (\<lambda>request n. (\<lparr> status = 200, body = ''{}'' \<rparr>, Suc n))
     (api_request None (ConfirmScanItems ''scan-1'') (Some ''{}'')) (0 :: nat) =
     (\<lparr> status = 401, body = ''INVALID_TOKEN'' \<rparr>, 0)
   \<and> apiCall_result (\<lambda>b. Some b)
        (fst (api_gateway (\<lambda>t. t = ''token-1'') (\<lambda>request n. (\<lparr> status = 200, body = ''{}'' \<rparr>, Suc n))
               (api_request None (ConfirmScanItems ''scan-1'') (Some ''{}'')) (0 :: nat))) =
       ApiFailure ''HTTP error! status: 401, body: INVALID_TOKEN''"
    by (rule inst [THEN conjunct2, THEN conjunct2, THEN mp]) simp
  have ok: "api_gateway (\<lambda>t. t = ''token-1'') (\<lambda>request n. (\<lparr> status = 200, body = ''{}'' \<rparr>, Suc n))
       (api_request (Some ''token-1'') (ConfirmScanItems ''scan-1'') (Some ''{}'')) (0 :: nat) =
       (\<lparr> status = 200, body = ''{}'' \<rparr>, 1)"
    by (simp add: api_gateway_def authenticated_def bearer_token_api_request)
  show ?thesis
    by (intro conjI w [THEN conjunct1] w [THEN conjunct2] ok)
qed

end
